theory Spec2Isabelle
  imports Main
begin

section \<open>Regular expressions as used by the validators\<close>

text \<open>
  The validators of \<^verbatim>\<open>hotel_manager.py\<close> decide the shape of a field with
  \<^verbatim>\<open>re.compile(p).fullmatch(s)\<close>. The patterns are embedded as values of the datatype
  below and matched with derivatives, so that every pattern of the source is written
  down as it is and can be run on a concrete string.

  Strings are lists of 8-bit characters, read as the code points below 256. On these,
  \<^verbatim>\<open>\d\<close> is \<^verbatim>\<open>[0-9]\<close>, \<^verbatim>\<open>.\<close> is every character but the line feed, and
  \<^verbatim>\<open>\s\<close> is the white space of \<^verbatim>\<open>str.isspace\<close>.
\<close>

datatype rx = Nul | Eps | Cls "char \<Rightarrow> bool" | Seq rx rx | Alt rx rx | Star rx | Both rx rx

fun nullable :: "rx \<Rightarrow> bool" where
  "nullable Nul = False"
| "nullable Eps = True"
| "nullable (Cls p) = False"
| "nullable (Seq a b) = (nullable a \<and> nullable b)"
| "nullable (Alt a b) = (nullable a \<or> nullable b)"
| "nullable (Star a) = True"
| "nullable (Both a b) = (nullable a \<and> nullable b)"

fun der :: "char \<Rightarrow> rx \<Rightarrow> rx" where
  "der c Nul = Nul"
| "der c Eps = Nul"
| "der c (Cls p) = (if p c then Eps else Nul)"
| "der c (Seq a b) = (if nullable a then Alt (Seq (der c a) b) (der c b) else Seq (der c a) b)"
| "der c (Alt a b) = Alt (der c a) (der c b)"
| "der c (Star a) = Seq (der c a) (Star a)"
| "der c (Both a b) = Both (der c a) (der c b)"

fun fullmatch :: "rx \<Rightarrow> string \<Rightarrow> bool" where
  "fullmatch r [] = nullable r"
| "fullmatch r (c # s) = fullmatch (der c r) s"

text \<open>The derived forms: \<^verbatim>\<open>r{n}\<close>, \<^verbatim>\<open>r?\<close>, \<^verbatim>\<open>r+\<close>, \<^verbatim>\<open>r{m,n}\<close>, one character, a literal word.\<close>

fun rep :: "nat \<Rightarrow> rx \<Rightarrow> rx" where
  "rep 0 r = Eps"
| "rep (Suc n) r = Seq r (rep n r)"

definition opt :: "rx \<Rightarrow> rx" where
  "opt r = Alt Eps r"

definition plus_rx :: "rx \<Rightarrow> rx" where
  "plus_rx r = Seq r (Star r)"

definition between :: "nat \<Rightarrow> nat \<Rightarrow> rx \<Rightarrow> rx" where
  "between m n r = Seq (rep m r) (rep (n - m) (opt r))"

definition chr :: "char \<Rightarrow> rx" where
  "chr c = Cls (\<lambda>x. x = c)"

fun lit :: "string \<Rightarrow> rx" where
  "lit [] = Eps"
| "lit (c # s) = Seq (chr c) (lit s)"

text \<open>Character classes.\<close>

definition in_range :: "char \<Rightarrow> char \<Rightarrow> char \<Rightarrow> bool" where
  "in_range lo hi c = ((of_char lo :: nat) \<le> of_char c \<and> (of_char c :: nat) \<le> of_char hi)"

definition is_digit :: "char \<Rightarrow> bool" where
  "is_digit c = in_range CHR ''0'' CHR ''9'' c"

definition is_upper :: "char \<Rightarrow> bool" where
  "is_upper c = in_range CHR ''A'' CHR ''Z'' c"

definition is_letter :: "char \<Rightarrow> bool" where
  "is_letter c = (in_range CHR ''a'' CHR ''z'' c \<or> in_range CHR ''A'' CHR ''Z'' c)"

definition is_hex :: "char \<Rightarrow> bool" where
  "is_hex c = (in_range CHR ''a'' CHR ''f'' c \<or> in_range CHR ''A'' CHR ''F'' c
               \<or> in_range CHR ''0'' CHR ''9'' c)"

definition is_space :: "char \<Rightarrow> bool" where
  "is_space c = (in_range (CHR 0x09) (CHR 0x0D) c \<or> in_range (CHR 0x1C) (CHR 0x20) c
                 \<or> c = CHR 0x85 \<or> c = CHR 0xA0)"

definition not_newline :: "char \<Rightarrow> bool" where
  "not_newline c = (c \<noteq> CHR 0x0A)"

section \<open>Python primitives used by the validators\<close>

text \<open>\<^verbatim>\<open>int(d)\<close> on one decimal digit, and \<^verbatim>\<open>str(n)\<close> on a natural number.\<close>

definition digit_value :: "char \<Rightarrow> nat" where
  "digit_value c = of_char c - 48"

definition digit_char :: "nat \<Rightarrow> char" where
  "digit_char n = char_of (48 + n)"

fun str_nat :: "nat \<Rightarrow> string" where
  "str_nat n = (if n < 10 then [digit_char n] else str_nat (n div 10) @ [digit_char (n mod 10)])"

declare str_nat.simps [simp del]

text \<open>
  \<^verbatim>\<open>int(s)\<close> on a string, base 10: white space is stripped on both sides, one sign
  is allowed, then decimal digits, with single underscores allowed between digits.
  \<open>None\<close> is Python's \<^verbatim>\<open>ValueError\<close>.
\<close>

definition strip :: "string \<Rightarrow> string" where
  "strip s = rev (dropWhile is_space (rev (dropWhile is_space s)))"

fun int_body :: "string \<Rightarrow> nat \<Rightarrow> nat option" where
  "int_body [] acc = None"
| "int_body [c] acc = (if is_digit c then Some (10 * acc + digit_value c) else None)"
| "int_body (c # d # t) acc =
     (if is_digit c
      then (if d = CHR ''_'' then int_body t (10 * acc + digit_value c)
            else int_body (d # t) (10 * acc + digit_value c))
      else None)"

definition int_of_str :: "string \<Rightarrow> int option" where
  "int_of_str s =
     (case strip s of
        [] \<Rightarrow> None
      | c # r \<Rightarrow>
          if c = CHR ''-'' then map_option (\<lambda>n. - int n) (int_body r 0)
          else if c = CHR ''+'' then map_option int (int_body r 0)
          else map_option int (int_body (c # r) 0))"

text \<open>
  The value handed in as \<^verbatim>\<open>num_days\<close> is an integer (the annotation) or a string (what
  a JSON reader or a caller may pass, and what \<^verbatim>\<open>int()\<close> is there for).
\<close>

datatype pyval = PyInt int | PyStr string

fun py_int :: "pyval \<Rightarrow> int option" where
  "py_int (PyInt n) = Some n"
| "py_int (PyStr s) = int_of_str s"

section \<open>Errors\<close>

text \<open>
  \<^verbatim>\<open>HotelManagementException(msg)\<close> is the exception every check raises. The others
  are the Python exceptions that \<^verbatim>\<open>int()\<close>, \<^verbatim>\<open>datetime.strptime\<close>, indexing, dictionary
  access, iteration and \<^verbatim>\<open>append\<close> raise where the source does not catch them.
\<close>

datatype error =
  HotelManagementException string | ValueError | IndexError | KeyError | TypeError | AttributeError

section \<open>JSON values\<close>

text \<open>
  What \<^verbatim>\<open>json.load\<close> returns: \<^verbatim>\<open>None\<close>, a truth value, a number, a string, a list or a
  dictionary (its entries in order, the keys pairwise different). Numbers are modelled
  as integers; a number read as a time stamp counts microseconds, as the time stamps of
  the records do.
\<close>

datatype json =
  JNull | JBool bool | JNum int | JStr string | JList "json list" | JDict "(string \<times> json) list"

text \<open>
  \<^verbatim>\<open>for item in v\<close>, \<^verbatim>\<open>v[key]\<close> with a string as key, and \<^verbatim>\<open>v.append(x)\<close> on such a value.
  A dictionary is iterated over its keys and a string over its characters; only a
  dictionary takes a string as subscript; only a list has \<^verbatim>\<open>append\<close>.
\<close>

fun py_iter :: "json \<Rightarrow> error + json list" where
  "py_iter (JList items) = Inr items"
| "py_iter (JDict entries) = Inr (map (\<lambda>entry. JStr (fst entry)) entries)"
| "py_iter (JStr s) = Inr (map (\<lambda>c. JStr [c]) s)"
| "py_iter JNull = Inl TypeError"
| "py_iter (JBool b) = Inl TypeError"
| "py_iter (JNum n) = Inl TypeError"

fun py_getitem :: "json \<Rightarrow> string \<Rightarrow> error + json" where
  "py_getitem (JDict entries) key =
     (case map_of entries key of None \<Rightarrow> Inl KeyError | Some v \<Rightarrow> Inr v)"
| "py_getitem JNull key = Inl TypeError"
| "py_getitem (JBool b) key = Inl TypeError"
| "py_getitem (JNum n) key = Inl TypeError"
| "py_getitem (JStr s) key = Inl TypeError"
| "py_getitem (JList items) key = Inl TypeError"

fun py_append :: "json \<Rightarrow> json \<Rightarrow> error + json" where
  "py_append (JList items) x = Inr (JList (items @ [x]))"
| "py_append JNull x = Inl AttributeError"
| "py_append (JBool b) x = Inl AttributeError"
| "py_append (JNum n) x = Inl AttributeError"
| "py_append (JStr s) x = Inl AttributeError"
| "py_append (JDict entries) x = Inl AttributeError"

text \<open>
  A string where Python needs one: \<^verbatim>\<open>re.fullmatch\<close> and \<^verbatim>\<open>datetime.strptime\<close> raise
  \<^verbatim>\<open>TypeError\<close> on every other value.
\<close>

fun json_str :: "json \<Rightarrow> error + string" where
  "json_str (JStr s) = Inr s"
| "json_str JNull = Inl TypeError"
| "json_str (JBool b) = Inl TypeError"
| "json_str (JNum n) = Inl TypeError"
| "json_str (JList items) = Inl TypeError"
| "json_str (JDict entries) = Inl TypeError"

text \<open>\<^verbatim>\<open>int(v)\<close> on a loaded value; a truth value is the integer 1 or 0.\<close>

fun py_int_json :: "json \<Rightarrow> error + int" where
  "py_int_json (JNum n) = Inr n"
| "py_int_json (JBool b) = Inr (if b then 1 else 0)"
| "py_int_json (JStr s) = (case int_of_str s of None \<Rightarrow> Inl ValueError | Some n \<Rightarrow> Inr n)"
| "py_int_json JNull = Inl TypeError"
| "py_int_json (JList items) = Inl TypeError"
| "py_int_json (JDict entries) = Inl TypeError"

text \<open>The value as which \<^verbatim>\<open>json.dump\<close> writes a number of days.\<close>

fun days_json :: "pyval \<Rightarrow> json" where
  "days_json (PyInt n) = JNum n"
| "days_json (PyStr s) = JStr s"

section \<open>ValidateParameters\<close>

text \<open>\<^verbatim>\<open>digits_of(n)\<close>: \<^verbatim>\<open>[int(d) for d in str(n)]\<close>, on a string and on a number.\<close>

definition digits_of_str :: "string \<Rightarrow> nat list" where
  "digits_of_str s = map digit_value s"

definition digits_of :: "nat \<Rightarrow> nat list" where
  "digits_of n = map digit_value (str_nat n)"

text \<open>The slices \<^verbatim>\<open>digits[-1::-2]\<close> and \<^verbatim>\<open>digits[-2::-2]\<close>.\<close>

fun every_other :: "'a list \<Rightarrow> 'a list" where
  "every_other [] = []"
| "every_other [x] = [x]"
| "every_other (x # y # xs) = x # every_other xs"

definition odd_digits :: "nat list \<Rightarrow> nat list" where
  "odd_digits digits = every_other (rev digits)"

definition even_digits :: "nat list \<Rightarrow> nat list" where
  "even_digits digits = every_other (drop 1 (rev digits))"

fun checksum_loop :: "nat list \<Rightarrow> nat \<Rightarrow> nat" where
  "checksum_loop [] checksum = checksum"
| "checksum_loop (d # ds) checksum = checksum_loop ds (checksum + sum_list (digits_of (d * 2)))"

definition luhn_checksum :: "string \<Rightarrow> nat" where
  "luhn_checksum credit_card =
     (let digits = digits_of_str credit_card
      in checksum_loop (even_digits digits) (0 + sum_list (odd_digits digits)))"

definition validatecreditcard :: "string \<Rightarrow> error + string" where
  "validatecreditcard credit_card =
     (if \<not> fullmatch (rep 16 (Cls (in_range CHR ''0'' CHR ''9''))) credit_card
      then Inl (HotelManagementException ''Invalid credit card format'')
      else if \<not> luhn_checksum credit_card mod 10 = 0
      then Inl (HotelManagementException ''Invalid credit card number (not luhn)'')
      else Inr credit_card)"

definition validate_room_type :: "string \<Rightarrow> error + string" where
  "validate_room_type room_type =
     (if \<not> fullmatch (Alt (lit ''SINGLE'') (Alt (lit ''DOUBLE'') (lit ''SUITE''))) room_type
      then Inl (HotelManagementException ''Invalid roomtype value'')
      else Inr room_type)"

text \<open>The pattern \<^verbatim>\<open>^(([0-2]\d|-3[0-1])\/(0\d|1[0-2])\/\d\d\d\d)$\<close>.\<close>

definition arrival_date_rx :: rx where
  "arrival_date_rx =
     Seq (Alt (Seq (Cls (in_range CHR ''0'' CHR ''2'')) (Cls is_digit))
              (Seq (chr CHR ''-'') (Seq (chr CHR ''3'') (Cls (in_range CHR ''0'' CHR ''1'')))))
    (Seq (chr CHR ''/'')
    (Seq (Alt (Seq (chr CHR ''0'') (Cls is_digit))
              (Seq (chr CHR ''1'') (Cls (in_range CHR ''0'' CHR ''2''))))
    (Seq (chr CHR ''/'')
         (Seq (Cls is_digit) (Seq (Cls is_digit) (Seq (Cls is_digit) (Cls is_digit)))))))"

definition validate_arrival_date :: "string \<Rightarrow> error + string" where
  "validate_arrival_date arrival_date =
     (if \<not> fullmatch arrival_date_rx arrival_date
      then Inl (HotelManagementException ''Invalid date format'')
      else Inr arrival_date)"

definition validate_phonenumber :: "string \<Rightarrow> error + string" where
  "validate_phonenumber phone_number =
     (if \<not> fullmatch (Seq (chr CHR ''+'') (rep 9 (Cls (in_range CHR ''0'' CHR ''9'')))) phone_number
      then Inl (HotelManagementException ''Invalid phone number format'')
      else Inr phone_number)"

definition validate_numdays :: "pyval \<Rightarrow> error + pyval" where
  "validate_numdays num_days =
     (case py_int num_days of
        None \<Rightarrow> Inl (HotelManagementException ''Invalid num_days datatype'')
      | Some days \<Rightarrow>
          if days < 1 \<or> days > 10
          then Inl (HotelManagementException ''Numdays should be in the range 1-10'')
          else Inr num_days)"

text \<open>
  \<^verbatim>\<open>validate_dni\<close>: the dictionary is keyed by the decimal strings \<^verbatim>\<open>"0"\<close> to \<^verbatim>\<open>"22"\<close>.
  \<^verbatim>\<open>int(dni[0:8])\<close> raises \<^verbatim>\<open>ValueError\<close> on a string that is no number, \<^verbatim>\<open>dni[8]\<close> raises
  \<^verbatim>\<open>IndexError\<close> on a short string, a missing key is a \<^verbatim>\<open>KeyError\<close>. Python's \<^verbatim>\<open>%\<close> with
  a positive modulus is never negative, as \<open>mod\<close> on \<open>int\<close>.
\<close>

definition dni_letter_dict :: "string \<rightharpoonup> char" where
  "dni_letter_dict = map_of
     [(''0'', CHR ''T''), (''1'', CHR ''R''), (''2'', CHR ''W''), (''3'', CHR ''A''),
      (''4'', CHR ''G''), (''5'', CHR ''M''), (''6'', CHR ''Y''), (''7'', CHR ''F''),
      (''8'', CHR ''P''), (''9'', CHR ''D''), (''10'', CHR ''X''), (''11'', CHR ''B''),
      (''12'', CHR ''N''), (''13'', CHR ''J''), (''14'', CHR ''Z''), (''15'', CHR ''S''),
      (''16'', CHR ''Q''), (''17'', CHR ''V''), (''18'', CHR ''H''), (''19'', CHR ''L''),
      (''20'', CHR ''C''), (''21'', CHR ''K''), (''22'', CHR ''E'')]"

definition validate_dni :: "string \<Rightarrow> error + bool" where
  "validate_dni dni =
     (case int_of_str (take 8 dni) of
        None \<Rightarrow> Inl ValueError
      | Some dni_numbers \<Rightarrow>
          let dni_choose_letter = str_nat (nat (dni_numbers mod 23))
          in if length dni \<le> 8 then Inl IndexError
             else case dni_letter_dict dni_choose_letter of
                    None \<Rightarrow> Inl KeyError
                  | Some letter \<Rightarrow> Inr (dni ! 8 = letter))"

definition validate_localizer :: "string \<Rightarrow> error + string" where
  "validate_localizer room_key =
     (if \<not> fullmatch (rep 32 (Cls is_hex)) room_key
      then Inl (HotelManagementException ''Invalid localizer'')
      else Inr room_key)"

section \<open>Dates and the clock\<close>

text \<open>
  A calendar date is year, month, day. \<open>make_date\<close> is the range check of Python's
  \<^verbatim>\<open>date(year, month, day)\<close>; \<open>None\<close> is its \<^verbatim>\<open>ValueError\<close>.
\<close>

datatype date = Date int int int

definition is_leap :: "int \<Rightarrow> bool" where
  "is_leap y = (y mod 4 = 0 \<and> (y mod 100 \<noteq> 0 \<or> y mod 400 = 0))"

definition days_in_month :: "int \<Rightarrow> int \<Rightarrow> int" where
  "days_in_month y m =
     (if m = 2 then (if is_leap y then 29 else 28)
      else if m = 4 \<or> m = 6 \<or> m = 9 \<or> m = 11 then 30 else 31)"

definition make_date :: "int \<Rightarrow> int \<Rightarrow> int \<Rightarrow> date option" where
  "make_date y m d =
     (if 1 \<le> y \<and> y \<le> 9999 \<and> 1 \<le> m \<and> m \<le> 12 \<and> 1 \<le> d \<and> d \<le> days_in_month y m
      then Some (Date y m d) else None)"

text \<open>
  \<^verbatim>\<open>datetime.strptime(s, "%d/%m/%Y").date()\<close>. The library turns the format into the
  pattern \<^verbatim>\<open>(3[0-1]|[1-2]\d|0[1-9]|[1-9]| [1-9])/(1[0-2]|0[1-9]|[1-9])/(\d\d\d\d)\<close>,
  which has to cover the whole string, converts the three groups with \<^verbatim>\<open>int()\<close> and
  builds the date. The groups hold no \<^verbatim>\<open>/\<close>, so they are the parts between the slashes.
\<close>

definition strptime_rx :: rx where
  "strptime_rx =
     Seq (Alt (Seq (chr CHR ''3'') (Cls (in_range CHR ''0'' CHR ''1'')))
         (Alt (Seq (Cls (in_range CHR ''1'' CHR ''2'')) (Cls is_digit))
         (Alt (Seq (chr CHR ''0'') (Cls (in_range CHR ''1'' CHR ''9'')))
         (Alt (Cls (in_range CHR ''1'' CHR ''9''))
              (Seq (chr CHR '' '') (Cls (in_range CHR ''1'' CHR ''9'')))))))
    (Seq (chr CHR ''/'')
    (Seq (Alt (Seq (chr CHR ''1'') (Cls (in_range CHR ''0'' CHR ''2'')))
         (Alt (Seq (chr CHR ''0'') (Cls (in_range CHR ''1'' CHR ''9'')))
              (Cls (in_range CHR ''1'' CHR ''9''))))
    (Seq (chr CHR ''/'')
         (Seq (Cls is_digit) (Seq (Cls is_digit) (Seq (Cls is_digit) (Cls is_digit)))))))"

definition strptime_date :: "string \<Rightarrow> date option" where
  "strptime_date s =
     (if \<not> fullmatch strptime_rx s then None
      else let d = takeWhile (\<lambda>c. c \<noteq> CHR ''/'') s;
               r = drop (length d + 1) s;
               m = takeWhile (\<lambda>c. c \<noteq> CHR ''/'') r;
               y = drop (length m + 1) r
           in case (int_of_str d, int_of_str m, int_of_str y) of
                (Some dd, Some mm, Some yy) \<Rightarrow> make_date yy mm dd
              | _ \<Rightarrow> None)"

text \<open>
  Time stamps are what \<^verbatim>\<open>datetime.timestamp\<close> returns. The code under \<^verbatim>\<open>src/\<close> only
  reads them from the clock, stores them and hands them back to the clock functions; it
  never computes with them. They are modelled as integers (microseconds).
\<close>

type_synonym timestamp = int

text \<open>
  The argument of \<^verbatim>\<open>datetime.fromtimestamp\<close> as a loaded value: a number, or a truth value
  (the number 1 or 0, in seconds); \<^verbatim>\<open>TypeError\<close> on every other value.
\<close>

fun py_timestamp :: "json \<Rightarrow> error + timestamp" where
  "py_timestamp (JNum t) = Inr t"
| "py_timestamp (JBool b) = Inr (if b then 1000000 else 0)"
| "py_timestamp JNull = Inl TypeError"
| "py_timestamp (JStr s) = Inl TypeError"
| "py_timestamp (JList items) = Inl TypeError"
| "py_timestamp (JDict entries) = Inl TypeError"

section \<open>Records of the three stores\<close>

text \<open>
  An item of \<^verbatim>\<open>store_reservation.json\<close> is the \<^verbatim>\<open>__dict__\<close> of a \<^verbatim>\<open>HotelReservation\<close>;
  the field names are the keys \<^verbatim>\<open>_HotelReservation__...\<close> that \<^verbatim>\<open>hotel_manager.py\<close> reads.
\<close>

record reservation =
  credit_card_number :: string
  id_card :: string
  arrival :: string
  reservation_date :: timestamp
  name_surname :: string
  phone_number :: string
  room_type :: string
  num_days :: pyval
  localizer :: string

text \<open>
  An item of \<^verbatim>\<open>store_check_in.json\<close> is the \<^verbatim>\<open>__dict__\<close> of a \<^verbatim>\<open>HotelStay\<close>. The manager
  reads the keys \<^verbatim>\<open>_HotelStay__room_key\<close> and \<^verbatim>\<open>_HotelStay__departure\<close>; the other fields
  are the ones the specification lists for a stay. The room type is the value found in
  the reservation store, handed on as it is.
\<close>

record stay =
  stay_id_card :: string
  stay_localizer :: string
  stay_num_days :: int
  stay_room_type :: json
  departure :: timestamp
  room_key :: string

text \<open>An item of \<^verbatim>\<open>store_check_out.json\<close>: the keys \<^verbatim>\<open>room_key\<close> and \<^verbatim>\<open>checkout_time\<close>.\<close>

record checkout_record =
  checkout_room_key :: string
  checkout_time :: timestamp

section \<open>The environment: clock and the two record classes\<close>

text \<open>
  The manager reads the clock and builds \<^verbatim>\<open>HotelReservation\<close> and \<^verbatim>\<open>HotelStay\<close> objects.
  The modules \<^verbatim>\<open>hotel_reservation.py\<close> and \<^verbatim>\<open>hotel_stay.py\<close> are not part of the sources
  at hand, so the functions that derive the two identifiers and the departure are
  parameters, carried with the clock in one record:
  \<^item> \<open>utcnow_date\<close> is \<^verbatim>\<open>datetime.utcnow().date()\<close>;
  \<^item> \<open>utcnow_timestamp\<close> is \<^verbatim>\<open>datetime.timestamp(datetime.utcnow())\<close>;
  \<^item> \<open>fromtimestamp_date t\<close> is \<^verbatim>\<open>datetime.fromtimestamp(t).date()\<close>, a date in the
    local time zone;
  \<^item> \<open>derive_localizer\<close> gives the localizer of a reservation from the seven constructor
    arguments (identity card, credit card, name, phone, room type, arrival, days) and
    the creation time stamp; the arguments are the values as \<^verbatim>\<open>guest_arrival\<close> reads them
    from the store, strings in a well-formed record;
  \<^item> \<open>derive_room_key\<close> gives the room key of a stay from its four constructor arguments
    and the clock;
  \<^item> \<open>derive_departure\<close> gives the departure time stamp of a stay from the number of days
    and the clock.
\<close>

record env =
  utcnow_date :: date
  utcnow_timestamp :: timestamp
  fromtimestamp_date :: "timestamp \<Rightarrow> date"
  derive_localizer :: "json \<Rightarrow> json \<Rightarrow> json \<Rightarrow> json \<Rightarrow> json \<Rightarrow> json \<Rightarrow> json
                       \<Rightarrow> timestamp \<Rightarrow> string"
  derive_room_key :: "string \<Rightarrow> int \<Rightarrow> string \<Rightarrow> json \<Rightarrow> timestamp \<Rightarrow> string"
  derive_departure :: "int \<Rightarrow> timestamp \<Rightarrow> timestamp"

text \<open>
  Modelled from the spec: the constructor of \<^verbatim>\<open>HotelReservation\<close>, which is missing from
  the sources. It keeps its seven arguments, sets the reservation time stamp to the clock
  (\<open>now\<close>) and derives the localizer from the content and that time stamp.
\<close>

definition HotelReservation ::
  "env \<Rightarrow> timestamp \<Rightarrow> string \<Rightarrow> string \<Rightarrow> string \<Rightarrow> string \<Rightarrow> string \<Rightarrow> string \<Rightarrow> pyval
   \<Rightarrow> reservation" where
  "HotelReservation e now idc cc name phone rtype arr days =
     \<lparr> credit_card_number = cc, id_card = idc, arrival = arr, reservation_date = now,
       name_surname = name, phone_number = phone, room_type = rtype, num_days = days,
       localizer = derive_localizer e (JStr idc) (JStr cc) (JStr name) (JStr phone) (JStr rtype)
                     (JStr arr) (days_json days) now \<rparr>"

text \<open>
  Modelled from the spec: the constructor of \<^verbatim>\<open>HotelStay\<close>, which is missing from the
  sources. It keeps its four arguments and derives the room key and the departure.
\<close>

definition HotelStay :: "env \<Rightarrow> string \<Rightarrow> int \<Rightarrow> string \<Rightarrow> json \<Rightarrow> stay" where
  "HotelStay e idcard numdays loc roomtype =
     \<lparr> stay_id_card = idcard, stay_localizer = loc, stay_num_days = numdays,
       stay_room_type = roomtype,
       departure = derive_departure e numdays (utcnow_timestamp e),
       room_key = derive_room_key e idcard numdays loc roomtype (utcnow_timestamp e) \<rparr>"

text \<open>
  The dictionaries that \<^verbatim>\<open>json.dump\<close> writes for a reservation (\<^verbatim>\<open>my_reservation.__dict__\<close>, with
  the keys that \<^verbatim>\<open>create_new_reservation\<close> reads) and for a check-out. A time stamp is
  written as the number that the record holds.
\<close>

definition reservation_json :: "reservation \<Rightarrow> json" where
  "reservation_json r = JDict
     [(''_HotelReservation__credit_card_number'', JStr (credit_card_number r)),
      (''_HotelReservation__id_card'', JStr (id_card r)),
      (''_HotelReservation__arrival'', JStr (arrival r)),
      (''_HotelReservation__reservation_date'', JNum (reservation_date r)),
      (''_HotelReservation__name_surname'', JStr (name_surname r)),
      (''_HotelReservation__phone_number'', JStr (phone_number r)),
      (''_HotelReservation__room_type'', JStr (room_type r)),
      (''_HotelReservation__num_days'', days_json (num_days r)),
      (''_HotelReservation__localizer'', JStr (localizer r))]"

definition checkout_json :: "checkout_record \<Rightarrow> json" where
  "checkout_json c = JDict
     [(''room_key'', JStr (checkout_room_key c)), (''checkout_time'', JNum (checkout_time c))]"

text \<open>
  Modelled from the spec: the dictionary written for a stay (\<^verbatim>\<open>my_checkin.__dict__\<close>). The
  class \<^verbatim>\<open>HotelStay\<close> is missing from the sources; the keys of the room key and of the
  departure are the two that \<^verbatim>\<open>save_checkin\<close> and \<^verbatim>\<open>checkout\<close> read, the other four are
  named after the fields that the specification lists for a stay.
\<close>

definition stay_json :: "stay \<Rightarrow> json" where
  "stay_json s = JDict
     [(''_HotelStay__idcard'', JStr (stay_id_card s)),
      (''_HotelStay__localizer'', JStr (stay_localizer s)),
      (''_HotelStay__num_days'', JNum (stay_num_days s)),
      (''_HotelStay__room_type'', stay_room_type s),
      (''_HotelStay__departure'', JNum (departure s)),
      (''_HotelStay__room_key'', JStr (room_key s))]"

section \<open>The persisted files\<close>

text \<open>
  A file read with \<^verbatim>\<open>json.load\<close> is absent (\<^verbatim>\<open>FileNotFoundError\<close>), present but no JSON
  (\<^verbatim>\<open>JSONDecodeError\<close>), or holds a JSON value. \<open>Json x\<close> is a file whose value has the
  shape the manager expects, a list of records of the kinds above for a store, and
  \<open>x\<close> is that list. \<open>JsonOther v\<close> is a file with the JSON value \<open>v\<close> of which no shape is
  known, for instance \<^verbatim>\<open>{}\<close>, \<^verbatim>\<open>[1]\<close> or \<^verbatim>\<open>"x"\<close>. The source does not look at the shape: the
  loading functions return what \<^verbatim>\<open>json.load\<close> gave, \<open>Shaped x\<close> or \<open>Unshaped v\<close>, and the
  code that follows runs on it, on records in the first case and on plain JSON values
  with the subscripts, iterations and \<^verbatim>\<open>append\<close> of Python in the second. A list of
  records can be given either way, as \<open>Json xs\<close> or as the plain value that \<^verbatim>\<open>json.dump\<close>
  writes for it; the operations are proved to agree on the two.
  \<open>path_exists\<close> says whether the directory \<^verbatim>\<open>JSON_FILES_PATH\<close> exists: opening a file for
  writing raises \<^verbatim>\<open>FileNotFoundError\<close> exactly when it does not.
\<close>

datatype 'a json_file = NoFile | NotJson | Json 'a | JsonOther json

datatype 'a loaded = Shaped 'a | Unshaped json

record stores =
  store_reservation :: "reservation list json_file"
  store_check_in :: "stay list json_file"
  store_check_out :: "checkout_record list json_file"
  path_exists :: bool

text \<open>
  An operation reads and writes the stores and ends in a value or an exception. The
  stores it leaves behind are returned in both cases: an exception does not undo a write.
\<close>

type_synonym 'a action = "stores \<Rightarrow> (error + 'a) \<times> stores"

definition bind_result :: "error + 'a \<Rightarrow> ('a \<Rightarrow> error + 'b) \<Rightarrow> error + 'b" where
  "bind_result r f = (case r of Inl e \<Rightarrow> Inl e | Inr x \<Rightarrow> f x)"

definition bind_action :: "'a action \<Rightarrow> ('a \<Rightarrow> 'b action) \<Rightarrow> 'b action" where
  "bind_action m f = (\<lambda>fs. case m fs of (Inl e, fs') \<Rightarrow> (Inl e, fs') | (Inr x, fs') \<Rightarrow> f x fs')"

definition pure_action :: "error + 'a \<Rightarrow> 'a action" where
  "pure_action r = (\<lambda>fs. (r, fs))"

definition store_json_into_list :: "'a json_file \<Rightarrow> string \<Rightarrow> error + 'a loaded" where
  "store_json_into_list file_input error_message =
     (case file_input of
        NoFile \<Rightarrow> Inl (HotelManagementException error_message)
      | NotJson \<Rightarrow> Inl (HotelManagementException ''JSON Decode Error - Wrong JSON Format'')
      | Json input_list \<Rightarrow> Inr (Shaped input_list)
      | JsonOther v \<Rightarrow> Inr (Unshaped v))"

definition store_data_into_list_if_file_exists ::
  "'a list json_file \<Rightarrow> error + 'a list loaded" where
  "store_data_into_list_if_file_exists file_store =
     (case file_store of
        NoFile \<Rightarrow> Inr (Shaped [])
      | NotJson \<Rightarrow> Inl (HotelManagementException ''JSON Decode Error - Wrong JSON Format'')
      | Json room_key_list \<Rightarrow> Inr (Shaped room_key_list)
      | JsonOther v \<Rightarrow> Inr (Unshaped v))"

text \<open>
  \<^verbatim>\<open>write_into_json(file_store, room_key_list)\<close>: the first argument of the model is the
  update of the store that the path names.
\<close>

definition write_into_json :: "(stores \<Rightarrow> stores) \<Rightarrow> unit action" where
  "write_into_json put =
     (\<lambda>fs. if path_exists fs then (Inr (), put fs)
           else (Inl (HotelManagementException ''Wrong file  or file path''), fs))"

definition read_store :: "(stores \<Rightarrow> 'a json_file) \<Rightarrow> ('a json_file \<Rightarrow> error + 'b) \<Rightarrow> 'b action" where
  "read_store file load = (\<lambda>fs. (load (file fs), fs))"

section \<open>HotelManager\<close>

text \<open>The pattern \<^verbatim>\<open>^(?=^.{10,50}$)([a-zA-Z]+(\s[a-zA-Z]+)+)$\<close>. The look-ahead stands at
  the start and reaches to the end of the string (\<^verbatim>\<open>$\<close> also matches before one final
  line feed), so the string has to match both parts.\<close>

definition name_surname_rx :: rx where
  "name_surname_rx =
     Both (Seq (between 10 50 (Cls not_newline)) (opt (chr (CHR 0x0A))))
          (Seq (plus_rx (Cls is_letter))
               (plus_rx (Seq (Cls is_space) (plus_rx (Cls is_letter)))))"

definition check_data ::
  "env \<Rightarrow> string \<Rightarrow> string \<Rightarrow> string \<Rightarrow> string \<Rightarrow> pyval \<Rightarrow> string \<Rightarrow> string
   \<Rightarrow> error + reservation" where
  "check_data e arrival_date credit_card idc name num_days_in phone rtype =
     (if \<not> fullmatch name_surname_rx name
      then Inl (HotelManagementException ''Invalid name format'')
      else bind_result (validatecreditcard credit_card) (\<lambda>credit_card.
           bind_result (validate_arrival_date arrival_date) (\<lambda>arrival_date.
           bind_result (validate_numdays num_days_in) (\<lambda>num_days_in.
           bind_result (validate_phonenumber phone) (\<lambda>phone.
           Inr (HotelReservation e (utcnow_timestamp e) idc credit_card name phone rtype
                  arrival_date num_days_in))))))"

definition check_id_card :: "string \<Rightarrow> error + unit" where
  "check_id_card idc =
     (if \<not> fullmatch (Seq (rep 8 (Cls (in_range CHR ''0'' CHR ''9'')))
                          (rep 1 (Cls (in_range CHR ''A'' CHR ''Z'')))) idc
      then Inl (HotelManagementException ''Invalid IdCard format'')
      else bind_result (validate_dni idc) (\<lambda>ok.
           if \<not> ok then Inl (HotelManagementException ''Invalid IdCard letter'')
           else Inr ()))"

text \<open>The loop of \<^verbatim>\<open>room_reservation\<close> over the stored items.\<close>

fun reservation_not_in_list :: "reservation \<Rightarrow> reservation list \<Rightarrow> error + unit" where
  "reservation_not_in_list my_reservation [] = Inr ()"
| "reservation_not_in_list my_reservation (item # data_list) =
     (if localizer my_reservation = localizer item
      then Inl (HotelManagementException ''Reservation already exists'')
      else if id_card my_reservation = id_card item
      then Inl (HotelManagementException ''This ID card has another reservation'')
      else reservation_not_in_list my_reservation data_list)"

text \<open>
  The same loop, the \<^verbatim>\<open>append\<close> and the write on a loaded value that is no list of
  records: every item is subscripted with the two keys, whatever it is.
\<close>

fun reservation_not_in_items :: "reservation \<Rightarrow> json list \<Rightarrow> error + unit" where
  "reservation_not_in_items my_reservation [] = Inr ()"
| "reservation_not_in_items my_reservation (item # data_list) =
     (case py_getitem item ''_HotelReservation__localizer'' of
        Inl err \<Rightarrow> Inl err
      | Inr stored_localizer \<Rightarrow>
          if JStr (localizer my_reservation) = stored_localizer
          then Inl (HotelManagementException ''Reservation already exists'')
          else (case py_getitem item ''_HotelReservation__id_card'' of
                  Inl err \<Rightarrow> Inl err
                | Inr stored_id_card \<Rightarrow>
                    if JStr (id_card my_reservation) = stored_id_card
                    then Inl (HotelManagementException ''This ID card has another reservation'')
                    else reservation_not_in_items my_reservation data_list))"

definition room_reservation_unshaped :: "reservation \<Rightarrow> json \<Rightarrow> string action" where
  "room_reservation_unshaped my_reservation data_list =
     bind_action (pure_action (py_iter data_list)) (\<lambda>items.
     bind_action (pure_action (reservation_not_in_items my_reservation items)) (\<lambda>_.
     bind_action (pure_action (py_append data_list (reservation_json my_reservation)))
       (\<lambda>data_list.
     bind_action (write_into_json (store_reservation_update (\<lambda>_. JsonOther data_list))) (\<lambda>_.
     pure_action (Inr (localizer my_reservation))))))"

definition room_reservation ::
  "env \<Rightarrow> string \<Rightarrow> string \<Rightarrow> string \<Rightarrow> string \<Rightarrow> string \<Rightarrow> string \<Rightarrow> pyval \<Rightarrow> string action" where
  "room_reservation e credit_card name idc phone rtype arrival_date num_days_in =
     bind_action (pure_action (check_id_card idc)) (\<lambda>_.
     bind_action (pure_action (validate_room_type rtype)) (\<lambda>rtype.
     bind_action (pure_action (check_data e arrival_date credit_card idc name num_days_in
                                 phone rtype)) (\<lambda>my_reservation.
     bind_action (read_store store_reservation store_data_into_list_if_file_exists) (\<lambda>loaded.
     case loaded of
       Shaped data_list \<Rightarrow>
         bind_action (pure_action (reservation_not_in_list my_reservation data_list)) (\<lambda>_.
         bind_action (write_into_json
                        (store_reservation_update (\<lambda>_. Json (data_list @ [my_reservation]))))
           (\<lambda>_.
         pure_action (Inr (localizer my_reservation))))
     | Unshaped data_list \<Rightarrow> room_reservation_unshaped my_reservation data_list))))"

text \<open>
  \<^verbatim>\<open>generate_reservation\<close>: the reservation is built again from the stored fields under
  \<^verbatim>\<open>freeze_time(datetime.fromtimestamp(reservation_date_timestamp))\<close>, that is with the
  clock set to the stored time stamp.
\<close>

definition generate_reservation ::
  "env \<Rightarrow> string \<Rightarrow> string \<Rightarrow> string \<Rightarrow> timestamp \<Rightarrow> pyval \<Rightarrow> string \<Rightarrow> string \<Rightarrow> string
   \<Rightarrow> string \<Rightarrow> error + unit" where
  "generate_reservation e my_localizer reservation_credit_card reservation_date_arrival
     reservation_date_timestamp reservation_days reservation_id_card reservation_name
     reservation_phone reservation_room_type =
     (let new_reservation =
            HotelReservation e reservation_date_timestamp reservation_id_card
              reservation_credit_card reservation_name reservation_phone
              reservation_room_type reservation_date_arrival reservation_days
      in if localizer new_reservation \<noteq> my_localizer
         then Inl (HotelManagementException ''Error: reservation has been manipulated'')
         else Inr ())"

text \<open>
  The loop of \<^verbatim>\<open>create_new_reservation\<close>: every matching item overwrites the variables
  \<^verbatim>\<open>reservation_...\<close> and sets \<^verbatim>\<open>found\<close>. The state of the loop is \<open>None\<close> while
  \<^verbatim>\<open>found\<close> is false and the item the variables were last read from afterwards.
\<close>

fun find_reservation :: "string \<Rightarrow> reservation list \<Rightarrow> reservation option \<Rightarrow> reservation option" where
  "find_reservation my_localizer [] found = found"
| "find_reservation my_localizer (item # store_list) found =
     find_reservation my_localizer store_list
       (if my_localizer = localizer item then Some item else found)"

definition create_new_reservation ::
  "env \<Rightarrow> string \<Rightarrow> string \<Rightarrow> reservation list \<Rightarrow> error + (string \<times> pyval \<times> string)" where
  "create_new_reservation e my_id_card my_localizer store_list =
     (case find_reservation my_localizer store_list None of
        None \<Rightarrow> Inl (HotelManagementException ''Error: localizer not found'')
      | Some item \<Rightarrow>
          if my_id_card \<noteq> id_card item
          then Inl (HotelManagementException ''Error: Localizer is not correct for this IdCard'')
          else bind_result
                 (generate_reservation e my_localizer (credit_card_number item) (arrival item)
                    (reservation_date item) (num_days item) (id_card item) (name_surname item)
                    (phone_number item) (room_type item)) (\<lambda>_.
               Inr (arrival item, num_days item, room_type item)))"

definition check_equals_date :: "env \<Rightarrow> string \<Rightarrow> error + unit" where
  "check_equals_date e reservation_date_arrival =
     (case strptime_date reservation_date_arrival of
        None \<Rightarrow> Inl ValueError
      | Some date_obj \<Rightarrow>
          if date_obj \<noteq> utcnow_date e
          then Inl (HotelManagementException ''Error: today is not reservation date'')
          else Inr ())"

definition get_and_validate_json :: "(string \<rightharpoonup> string) \<Rightarrow> error + (string \<times> string)" where
  "get_and_validate_json input_list =
     (case input_list ''Localizer'' of
        None \<Rightarrow> Inl (HotelManagementException ''Error - Invalid Key in JSON'')
      | Some my_localizer \<Rightarrow>
          case input_list ''IdCard'' of
            None \<Rightarrow> Inl (HotelManagementException ''Error - Invalid Key in JSON'')
          | Some my_id_card \<Rightarrow>
              bind_result (check_id_card my_id_card) (\<lambda>_.
              bind_result (validate_localizer my_localizer) (\<lambda>_.
              Inr (my_id_card, my_localizer))))"

text \<open>
  \<^verbatim>\<open>get_and_validate_json\<close> on an input file whose value is no dictionary of strings. Only
  the \<^verbatim>\<open>KeyError\<close> of the two subscripts is caught.
\<close>

definition get_key_or_invalid :: "json \<Rightarrow> string \<Rightarrow> error + json" where
  "get_key_or_invalid input_list key =
     (case py_getitem input_list key of
        Inl err \<Rightarrow>
          if err = KeyError then Inl (HotelManagementException ''Error - Invalid Key in JSON'')
          else Inl err
      | Inr v \<Rightarrow> Inr v)"

definition get_and_validate_json_unshaped :: "json \<Rightarrow> error + (string \<times> string)" where
  "get_and_validate_json_unshaped input_list =
     bind_result (get_key_or_invalid input_list ''Localizer'') (\<lambda>my_localizer.
     bind_result (get_key_or_invalid input_list ''IdCard'') (\<lambda>my_id_card.
     bind_result (json_str my_id_card) (\<lambda>my_id_card.
     bind_result (check_id_card my_id_card) (\<lambda>_.
     bind_result (json_str my_localizer) (\<lambda>my_localizer.
     bind_result (validate_localizer my_localizer) (\<lambda>_.
     Inr (my_id_card, my_localizer)))))))"

text \<open>
  \<^verbatim>\<open>create_new_reservation\<close> on a loaded value that is no list of records. An item whose
  localizer is the one looked for is subscripted with the other eight keys, in the order
  of the source; the values found are used as they are.
\<close>

definition reservation_fields ::
  "json \<Rightarrow> error + (json \<times> json \<times> json \<times> json \<times> json \<times> json \<times> json \<times> json)" where
  "reservation_fields item =
     bind_result (py_getitem item ''_HotelReservation__num_days'') (\<lambda>reservation_days.
     bind_result (py_getitem item ''_HotelReservation__room_type'') (\<lambda>reservation_room_type.
     bind_result (py_getitem item ''_HotelReservation__reservation_date'')
       (\<lambda>reservation_date_timestamp.
     bind_result (py_getitem item ''_HotelReservation__credit_card_number'')
       (\<lambda>reservation_credit_card.
     bind_result (py_getitem item ''_HotelReservation__arrival'') (\<lambda>reservation_date_arrival.
     bind_result (py_getitem item ''_HotelReservation__name_surname'') (\<lambda>reservation_name.
     bind_result (py_getitem item ''_HotelReservation__phone_number'') (\<lambda>reservation_phone.
     bind_result (py_getitem item ''_HotelReservation__id_card'') (\<lambda>reservation_id_card.
     Inr (reservation_days, reservation_room_type, reservation_date_timestamp,
          reservation_credit_card, reservation_date_arrival, reservation_name,
          reservation_phone, reservation_id_card)))))))))"

fun find_reservation_item ::
  "string \<Rightarrow> json list
   \<Rightarrow> (json \<times> json \<times> json \<times> json \<times> json \<times> json \<times> json \<times> json) option
   \<Rightarrow> error + (json \<times> json \<times> json \<times> json \<times> json \<times> json \<times> json \<times> json) option" where
  "find_reservation_item my_localizer [] found = Inr found"
| "find_reservation_item my_localizer (item # store_list) found =
     (case py_getitem item ''_HotelReservation__localizer'' of
        Inl err \<Rightarrow> Inl err
      | Inr stored_localizer \<Rightarrow>
          if JStr my_localizer = stored_localizer
          then (case reservation_fields item of
                  Inl err \<Rightarrow> Inl err
                | Inr vs \<Rightarrow> find_reservation_item my_localizer store_list (Some vs))
          else find_reservation_item my_localizer store_list found)"

definition create_new_reservation_unshaped ::
  "env \<Rightarrow> string \<Rightarrow> string \<Rightarrow> json \<Rightarrow> error + (json \<times> json \<times> json)" where
  "create_new_reservation_unshaped e my_id_card my_localizer store_list =
     bind_result (py_iter store_list) (\<lambda>items.
     bind_result (find_reservation_item my_localizer items None) (\<lambda>found.
     case found of
       None \<Rightarrow> Inl (HotelManagementException ''Error: localizer not found'')
     | Some (reservation_days, reservation_room_type, reservation_date_timestamp,
             reservation_credit_card, reservation_date_arrival, reservation_name,
             reservation_phone, reservation_id_card) \<Rightarrow>
         if JStr my_id_card \<noteq> reservation_id_card
         then Inl (HotelManagementException ''Error: Localizer is not correct for this IdCard'')
         else bind_result (py_timestamp reservation_date_timestamp) (\<lambda>reservation_date.
              if derive_localizer e reservation_id_card reservation_credit_card reservation_name
                   reservation_phone reservation_room_type reservation_date_arrival
                   reservation_days reservation_date \<noteq> my_localizer
              then Inl (HotelManagementException ''Error: reservation has been manipulated'')
              else Inr (reservation_date_arrival, reservation_days, reservation_room_type))))"

fun checkin_not_in_list :: "stay \<Rightarrow> stay list \<Rightarrow> error + unit" where
  "checkin_not_in_list my_checkin [] = Inr ()"
| "checkin_not_in_list my_checkin (item # room_key_list) =
     (if room_key my_checkin = room_key item
      then Inl (HotelManagementException ''ckeckin  ya realizado'')
      else checkin_not_in_list my_checkin room_key_list)"

fun checkin_not_in_items :: "stay \<Rightarrow> json list \<Rightarrow> error + unit" where
  "checkin_not_in_items my_checkin [] = Inr ()"
| "checkin_not_in_items my_checkin (item # room_key_list) =
     (case py_getitem item ''_HotelStay__room_key'' of
        Inl err \<Rightarrow> Inl err
      | Inr stored_room_key \<Rightarrow>
          if JStr (room_key my_checkin) = stored_room_key
          then Inl (HotelManagementException ''ckeckin  ya realizado'')
          else checkin_not_in_items my_checkin room_key_list)"

definition save_checkin_unshaped :: "stay \<Rightarrow> json \<Rightarrow> unit action" where
  "save_checkin_unshaped my_checkin room_key_list =
     bind_action (pure_action (py_iter room_key_list)) (\<lambda>items.
     bind_action (pure_action (checkin_not_in_items my_checkin items)) (\<lambda>_.
     bind_action (pure_action (py_append room_key_list (stay_json my_checkin)))
       (\<lambda>room_key_list.
     write_into_json (store_check_in_update (\<lambda>_. JsonOther room_key_list)))))"

definition save_checkin :: "stay \<Rightarrow> unit action" where
  "save_checkin my_checkin =
     bind_action (read_store store_check_in store_data_into_list_if_file_exists) (\<lambda>loaded.
     case loaded of
       Shaped room_key_list \<Rightarrow>
         bind_action (pure_action (checkin_not_in_list my_checkin room_key_list)) (\<lambda>_.
         write_into_json (store_check_in_update (\<lambda>_. Json (room_key_list @ [my_checkin]))))
     | Unshaped room_key_list \<Rightarrow> save_checkin_unshaped my_checkin room_key_list)"

definition int_of_days :: "pyval \<Rightarrow> error + int" where
  "int_of_days v = (case py_int v of None \<Rightarrow> Inl ValueError | Some n \<Rightarrow> Inr n)"

text \<open>
  The rest of \<^verbatim>\<open>guest_arrival\<close> after the reservation store has been loaded as a value
  that is no list of records.
\<close>

definition guest_arrival_unshaped :: "env \<Rightarrow> string \<Rightarrow> string \<Rightarrow> json \<Rightarrow> string action" where
  "guest_arrival_unshaped e my_id_card my_localizer store_list =
     bind_action (pure_action (create_new_reservation_unshaped e my_id_card my_localizer store_list))
       (\<lambda>(reservation_date_arrival, reservation_days, reservation_room_type).
     bind_action (pure_action (bind_result (json_str reservation_date_arrival)
                                 (check_equals_date e))) (\<lambda>_.
     bind_action (pure_action (py_int_json reservation_days)) (\<lambda>numdays.
     let my_checkin = HotelStay e my_id_card numdays my_localizer reservation_room_type
     in bind_action (save_checkin my_checkin) (\<lambda>_.
        pure_action (Inr (room_key my_checkin))))))"

definition guest_arrival :: "env \<Rightarrow> (string \<rightharpoonup> string) json_file \<Rightarrow> string action" where
  "guest_arrival e file_input =
     bind_action (pure_action (store_json_into_list file_input ''Error: file input not found''))
       (\<lambda>input_list.
     bind_action (pure_action
                    (case input_list of
                       Shaped input_list \<Rightarrow> get_and_validate_json input_list
                     | Unshaped input_list \<Rightarrow> get_and_validate_json_unshaped input_list))
       (\<lambda>(my_id_card, my_localizer).
     bind_action (read_store store_reservation
                    (\<lambda>f. store_json_into_list f ''Error: store reservation not found''))
       (\<lambda>loaded.
     case loaded of
       Shaped store_list \<Rightarrow>
         bind_action (pure_action (create_new_reservation e my_id_card my_localizer store_list))
           (\<lambda>(reservation_date_arrival, reservation_days, reservation_room_type).
         bind_action (pure_action (check_equals_date e reservation_date_arrival)) (\<lambda>_.
         bind_action (pure_action (int_of_days reservation_days)) (\<lambda>numdays.
         let my_checkin = HotelStay e my_id_card numdays my_localizer
                            (JStr reservation_room_type)
         in bind_action (save_checkin my_checkin) (\<lambda>_.
            pure_action (Inr (room_key my_checkin))))))
     | Unshaped store_list \<Rightarrow> guest_arrival_unshaped e my_id_card my_localizer store_list)))"

section \<open>GuestCheckout\<close>

definition validate_roomkey :: "string \<Rightarrow> error + string" where
  "validate_roomkey rk =
     (if \<not> fullmatch (rep 64 (Cls is_hex)) rk
      then Inl (HotelManagementException ''Invalid room key format'')
      else Inr rk)"

text \<open>
  The first loop of \<^verbatim>\<open>checkout\<close>: every matching item overwrites
  \<^verbatim>\<open>departure_date_timestamp\<close> and sets \<^verbatim>\<open>found\<close>.
\<close>

fun find_departure :: "string \<Rightarrow> stay list \<Rightarrow> timestamp option \<Rightarrow> timestamp option" where
  "find_departure rk [] found = found"
| "find_departure rk (item # room_key_list) found =
     find_departure rk room_key_list (if rk = room_key item then Some (departure item) else found)"

fun not_checked_out :: "string \<Rightarrow> checkout_record list \<Rightarrow> error + unit" where
  "not_checked_out rk [] = Inr ()"
| "not_checked_out rk (checkout # room_key_list) =
     (if checkout_room_key checkout = rk
      then Inl (HotelManagementException ''Guest is already out'')
      else not_checked_out rk room_key_list)"

text \<open>
  The two loops of \<^verbatim>\<open>checkout\<close> on loaded values that are no lists of records, with the
  date check of the departure found and the \<^verbatim>\<open>append\<close>.
\<close>

fun find_departure_item :: "string \<Rightarrow> json list \<Rightarrow> json option \<Rightarrow> error + json option" where
  "find_departure_item rk [] found = Inr found"
| "find_departure_item rk (item # room_key_list) found =
     (case py_getitem item ''_HotelStay__room_key'' of
        Inl err \<Rightarrow> Inl err
      | Inr stored_room_key \<Rightarrow>
          if JStr rk = stored_room_key
          then (case py_getitem item ''_HotelStay__departure'' of
                  Inl err \<Rightarrow> Inl err
                | Inr departure_date_timestamp \<Rightarrow>
                    find_departure_item rk room_key_list (Some departure_date_timestamp))
          else find_departure_item rk room_key_list found)"

definition departure_day_unshaped :: "env \<Rightarrow> string \<Rightarrow> json \<Rightarrow> error + unit" where
  "departure_day_unshaped e rk room_key_list =
     bind_result (py_iter room_key_list) (\<lambda>items.
     bind_result (find_departure_item rk items None) (\<lambda>found.
     case found of
       None \<Rightarrow> Inl (HotelManagementException ''Error: room key not found'')
     | Some departure_date_timestamp \<Rightarrow>
         bind_result (py_timestamp departure_date_timestamp) (\<lambda>departure_date_timestamp.
         if fromtimestamp_date e departure_date_timestamp \<noteq> utcnow_date e
         then Inl (HotelManagementException ''Error: today is not the departure day'')
         else Inr ())))"

fun not_checked_out_items :: "string \<Rightarrow> json list \<Rightarrow> error + unit" where
  "not_checked_out_items rk [] = Inr ()"
| "not_checked_out_items rk (checkout # room_key_list) =
     (case py_getitem checkout ''room_key'' of
        Inl err \<Rightarrow> Inl err
      | Inr stored_room_key \<Rightarrow>
          if stored_room_key = JStr rk
          then Inl (HotelManagementException ''Guest is already out'')
          else not_checked_out_items rk room_key_list)"

definition write_checkout_unshaped :: "string \<Rightarrow> checkout_record \<Rightarrow> json \<Rightarrow> bool action" where
  "write_checkout_unshaped rk room_checkout room_key_list =
     bind_action (pure_action (py_iter room_key_list)) (\<lambda>items.
     bind_action (pure_action (not_checked_out_items rk items)) (\<lambda>_.
     bind_action (pure_action (py_append room_key_list (checkout_json room_checkout)))
       (\<lambda>room_key_list.
     bind_action (write_into_json (store_check_out_update (\<lambda>_. JsonOther room_key_list))) (\<lambda>_.
     pure_action (Inr True)))))"

definition checkout :: "env \<Rightarrow> string \<Rightarrow> bool action" where
  "checkout e rk =
     bind_action (pure_action (validate_roomkey rk)) (\<lambda>_.
     bind_action (read_store store_check_in
                    (\<lambda>f. store_json_into_list f ''Error: store checkin not found''))
       (\<lambda>loaded.
     bind_action (pure_action
                    (case loaded of
                       Shaped room_key_list \<Rightarrow>
                         (case find_departure rk room_key_list None of
                            None \<Rightarrow> Inl (HotelManagementException ''Error: room key not found'')
                          | Some departure_date_timestamp \<Rightarrow>
                              if fromtimestamp_date e departure_date_timestamp \<noteq> utcnow_date e
                              then Inl (HotelManagementException
                                          ''Error: today is not the departure day'')
                              else Inr ())
                     | Unshaped room_key_list \<Rightarrow> departure_day_unshaped e rk room_key_list))
       (\<lambda>_.
     bind_action (read_store store_check_out store_data_into_list_if_file_exists) (\<lambda>loaded.
     let room_checkout = \<lparr> checkout_room_key = rk, checkout_time = utcnow_timestamp e \<rparr>
     in case loaded of
          Shaped room_key_list \<Rightarrow>
            bind_action (pure_action (not_checked_out rk room_key_list)) (\<lambda>_.
            bind_action (write_into_json
                           (store_check_out_update (\<lambda>_. Json (room_key_list @ [room_checkout]))))
              (\<lambda>_.
            pure_action (Inr True)))
        | Unshaped room_key_list \<Rightarrow> write_checkout_unshaped rk room_checkout room_key_list))))"

definition guest_checkout :: "env \<Rightarrow> string \<Rightarrow> bool action" where
  "guest_checkout e rk = checkout e rk"

section \<open>Definitions that follow the specification\<close>

text \<open>
  The Luhn sum as the specification words it: counting from the rightmost digit
  (position 0), every second digit (the odd positions) is doubled, a doubled value above
  9 is replaced by the sum of its two digits, and all values are added.
\<close>

definition spec_luhn_term :: "nat \<Rightarrow> nat \<Rightarrow> nat" where
  "spec_luhn_term i d =
     (if odd i then (if 2 * d > 9 then (2 * d) div 10 + (2 * d) mod 10 else 2 * d) else d)"

definition spec_luhn_sum :: "nat list \<Rightarrow> nat" where
  "spec_luhn_sum ds = (\<Sum>i<length ds. spec_luhn_term i (rev ds ! i))"


text \<open>
  The check letter of an identity card as the specification words it: the entry of the
  fixed table of 23 letters at the index (numeric part mod 23), where the numeric part
  is the decimal value of the eight digits.
\<close>

definition spec_decimal_value :: "string \<Rightarrow> nat" where
  "spec_decimal_value s = foldl (\<lambda>n c. 10 * n + digit_value c) 0 s"

definition spec_dni_table :: string where
  "spec_dni_table = ''TRWAGMYFPDXBNJZSQVHLCKE''"


definition single_field_edit :: "reservation \<Rightarrow> reservation \<Rightarrow> bool" where
  "single_field_edit item edited =
     (localizer edited = localizer item
      \<and> length (filter (\<lambda>changed. changed)
            [credit_card_number edited \<noteq> credit_card_number item,
             id_card edited \<noteq> id_card item,
             arrival edited \<noteq> arrival item,
             reservation_date edited \<noteq> reservation_date item,
             name_surname edited \<noteq> name_surname item,
             phone_number edited \<noteq> phone_number item,
             room_type edited \<noteq> room_type item,
             num_days edited \<noteq> num_days item]) = 1)"


section \<open>Vocabulary of the proofs\<close>

text \<open>An action that only reads, and an action that writes nothing when it fails.\<close>

definition leaves_stores :: "'a action \<Rightarrow> bool" where
  "leaves_stores m = (\<forall>fs. snd (m fs) = fs)"

definition all_or_nothing :: "'a action \<Rightarrow> bool" where
  "all_or_nothing m = (\<forall>fs e. fst (m fs) = Inl e \<longrightarrow> snd (m fs) = fs)"

text \<open>
  The stores with every list of records kept as the plain JSON value that \<^verbatim>\<open>json.dump\<close>
  writes for it, and the eight values that \<^verbatim>\<open>create_new_reservation\<close> reads from the
  dictionary of a reservation.
\<close>

definition stored_values ::
  "reservation \<Rightarrow> json \<times> json \<times> json \<times> json \<times> json \<times> json \<times> json \<times> json" where
  "stored_values r =
     (days_json (num_days r), JStr (room_type r), JNum (reservation_date r),
      JStr (credit_card_number r), JStr (arrival r), JStr (name_surname r),
      JStr (phone_number r), JStr (id_card r))"

definition plain_file :: "('a \<Rightarrow> json) \<Rightarrow> 'a list json_file \<Rightarrow> 'a list json_file" where
  "plain_file enc f =
     (case f of
        Json xs \<Rightarrow> JsonOther (JList (map enc xs))
      | NoFile \<Rightarrow> NoFile
      | NotJson \<Rightarrow> NotJson
      | JsonOther v \<Rightarrow> JsonOther v)"

definition plain :: "stores \<Rightarrow> stores" where
  "plain fs =
     fs\<lparr> store_reservation := plain_file reservation_json (store_reservation fs),
         store_check_in := plain_file stay_json (store_check_in fs),
         store_check_out := plain_file checkout_json (store_check_out fs) \<rparr>"

text \<open>
  The error of a file that is no JSON, a result that is not this error, and an action
  that does not fail with it on given stores.
\<close>

definition decode_error :: error where
  "decode_error = HotelManagementException ''JSON Decode Error - Wrong JSON Format''"

definition decoded :: "error + 'a \<Rightarrow> bool" where
  "decoded r = (r \<noteq> Inl decode_error)"


section \<open>A sample hotel\<close>

text \<open>
  Concrete values on which the theorems are run. \<open>sample_digest\<close> stands in for the
  digest of the missing \<^verbatim>\<open>HotelReservation\<close>: it tells the content and time stamp of the
  sample reservation from every other. The clock of \<open>sample_env\<close> shows noon of
  20 January 2024, that of \<open>sample_env_departure\<close> eight in the evening of 23 January 2024;
  the sample stay departs at noon of 23 January 2024.
\<close>

definition sample_digest ::
  "json \<Rightarrow> json \<Rightarrow> json \<Rightarrow> json \<Rightarrow> json \<Rightarrow> json \<Rightarrow> json \<Rightarrow> timestamp \<Rightarrow> string" where
  "sample_digest idc cc name phone rtype arr days ts =
     (if idc = JStr ''12345678Z'' \<and> cc = JStr ''5555555555554444''
         \<and> name = JStr ''Jose Lopez Perez'' \<and> phone = JStr ''+341234567''
         \<and> rtype = JStr ''SINGLE'' \<and> arr = JStr ''20/01/2024''
         \<and> days = JNum 3 \<and> ts = 1705752000000000
      then ''0123456789abcdef0123456789abcdef''
      else ''ffffffffffffffffffffffffffffffff'')"

definition sample_room_key :: string where
  "sample_room_key = ''0123456789abcdef0123456789abcdef0123456789abcdef0123456789abcdef''"

definition sample_env :: env where
  "sample_env =
     \<lparr> utcnow_date = Date 2024 1 20,
       utcnow_timestamp = 1705752000000000,
       fromtimestamp_date = (\<lambda>t. Date 2024 1 (20 + (t div 86400000000 - 19742))),
       derive_localizer = sample_digest,
       derive_room_key = (\<lambda>idcard numdays loc roomtype now. sample_room_key),
       derive_departure = (\<lambda>numdays now. now + numdays * 86400000000) \<rparr>"

definition sample_env_departure :: env where
  "sample_env_departure =
     sample_env \<lparr> utcnow_date := Date 2024 1 23, utcnow_timestamp := 1706040000000000 \<rparr>"

definition sample_reservation :: reservation where
  "sample_reservation =
     \<lparr> credit_card_number = ''5555555555554444'', id_card = ''12345678Z'',
       arrival = ''20/01/2024'', reservation_date = 1705752000000000,
       name_surname = ''Jose Lopez Perez'', phone_number = ''+341234567'',
       room_type = ''SINGLE'', num_days = PyInt 3,
       localizer = ''0123456789abcdef0123456789abcdef'' \<rparr>"

definition sample_stay :: stay where
  "sample_stay =
     \<lparr> stay_id_card = ''12345678Z'', stay_localizer = ''0123456789abcdef0123456789abcdef'',
       stay_num_days = 3, stay_room_type = JStr ''SINGLE'', departure = 1706011200000000,
       room_key = sample_room_key \<rparr>"

definition sample_input :: "string \<rightharpoonup> string" where
  "sample_input = [''Localizer'' \<mapsto> ''0123456789abcdef0123456789abcdef'',
                   ''IdCard'' \<mapsto> ''12345678Z'']"

definition sample_stores :: stores where
  "sample_stores =
     \<lparr> store_reservation = Json [sample_reservation], store_check_in = NoFile,
       store_check_out = NoFile, path_exists = True \<rparr>"


section \<open>Facts about the matcher\<close>

lemma fullmatch_Nul [simp]: "fullmatch Nul s = False"
  by (induction s) auto

lemma fullmatch_Eps [simp]: "fullmatch Eps s = (s = [])"
  by (cases s) auto

lemma fullmatch_Cls: "fullmatch (Cls p) s = (\<exists>c. s = [c] \<and> p c)"
  by (cases s) auto

lemma fullmatch_Alt [simp]: "fullmatch (Alt a b) s = (fullmatch a s \<or> fullmatch b s)"
  by (induction s arbitrary: a b) auto

lemma fullmatch_Both [simp]: "fullmatch (Both a b) s = (fullmatch a s \<and> fullmatch b s)"
  by (induction s arbitrary: a b) auto

lemma fullmatch_Seq_Nul [simp]: "fullmatch (Seq Nul r) s = False"
  by (induction s) auto

lemma fullmatch_Seq_Eps [simp]: "fullmatch (Seq Eps r) s = fullmatch r s"
  by (cases s) auto

lemma fullmatch_Seq_Cls_Cons [simp]:
  "fullmatch (Seq (Cls p) r) (c # s) = (p c \<and> fullmatch r s)"
  by simp

lemma fullmatch_Cls_Cons [simp]: "fullmatch (Cls p) (c # s) = (p c \<and> s = [])"
  by simp

lemma fullmatch_rep_Cls: "fullmatch (rep n (Cls p)) s = (length s = n \<and> list_all p s)"
proof (induction n arbitrary: s)
  case 0
  show ?case by auto
next
  case (Suc n)
  show ?case
  proof (cases s)
    case Nil
    then show ?thesis by simp
  next
    case (Cons c t)
    then show ?thesis using Suc.IH [of t] by auto
  qed
qed

lemma fullmatch_Seq:
  "fullmatch (Seq a b) s = (\<exists>u v. s = u @ v \<and> fullmatch a u \<and> fullmatch b v)"
proof (induction s arbitrary: a)
  case Nil
  then show ?case by simp
next
  case (Cons c s)
  have split: "(\<exists>u v. c # s = u @ v \<and> fullmatch a u \<and> fullmatch b v) =
      ((nullable a \<and> fullmatch b (c # s))
       \<or> (\<exists>u v. s = u @ v \<and> fullmatch (der c a) u \<and> fullmatch b v))"
    (is "?L = ?R")
  proof
    assume ?L
    then obtain u v where uv: "c # s = u @ v" "fullmatch a u" "fullmatch b v" by blast
    show ?R
    proof (cases u)
      case Nil
      with uv show ?thesis by simp
    next
      case (Cons d u')
      with uv have "s = u' @ v" "fullmatch (der c a) u'" by auto
      with uv(3) show ?thesis by blast
    qed
  next
    assume ?R
    then show ?L
    proof
      assume "nullable a \<and> fullmatch b (c # s)"
      then have "c # s = [] @ (c # s) \<and> fullmatch a [] \<and> fullmatch b (c # s)" by simp
      then show ?L by blast
    next
      assume "\<exists>u v. s = u @ v \<and> fullmatch (der c a) u \<and> fullmatch b v"
      then obtain u v where "s = u @ v" "fullmatch (der c a) u" "fullmatch b v" by blast
      then have "c # s = (c # u) @ v \<and> fullmatch a (c # u) \<and> fullmatch b v" by simp
      then show ?L by blast
    qed
  qed
  show ?case using Cons.IH by (auto simp: split)
qed

lemma fullmatch_Seq_assoc: "fullmatch (Seq (Seq a b) r) s = fullmatch (Seq a (Seq b r)) s"
proof
  assume "fullmatch (Seq (Seq a b) r) s"
  then obtain u v w where "s = (u @ v) @ w" "fullmatch a u" "fullmatch b v" "fullmatch r w"
    unfolding fullmatch_Seq by blast
  then have "s = u @ (v @ w) \<and> fullmatch a u \<and> (\<exists>x y. v @ w = x @ y \<and> fullmatch b x \<and> fullmatch r y)"
    by auto
  then show "fullmatch (Seq a (Seq b r)) s" unfolding fullmatch_Seq by blast
next
  assume "fullmatch (Seq a (Seq b r)) s"
  then obtain u v w where "s = u @ (v @ w)" "fullmatch a u" "fullmatch b v" "fullmatch r w"
    unfolding fullmatch_Seq by blast
  then have "s = (u @ v) @ w \<and> (\<exists>x y. u @ v = x @ y \<and> fullmatch a x \<and> fullmatch b y) \<and> fullmatch r w"
    by auto
  then show "fullmatch (Seq (Seq a b) r) s" unfolding fullmatch_Seq by blast
qed

lemma fullmatch_rep_Cls_Seq:
  "fullmatch (Seq (rep n (Cls p)) r) s =
     (n \<le> length s \<and> list_all p (take n s) \<and> fullmatch r (drop n s))"
proof (induction n arbitrary: s)
  case 0
  show ?case by simp
next
  case (Suc n)
  show ?case
  proof (cases s)
    case Nil
    then show ?thesis by (simp add: fullmatch_Seq_assoc)
  next
    case (Cons c t)
    have "fullmatch (Seq (rep (Suc n) (Cls p)) r) (c # t)
          = fullmatch (Seq (Cls p) (Seq (rep n (Cls p)) r)) (c # t)"
      unfolding rep.simps by (rule fullmatch_Seq_assoc)
    also have "\<dots> = (p c \<and> fullmatch (Seq (rep n (Cls p)) r) t)"
      by (rule fullmatch_Seq_Cls_Cons)
    finally have "fullmatch (Seq (rep (Suc n) (Cls p)) r) (c # t)
          = (p c \<and> n \<le> length t \<and> list_all p (take n t) \<and> fullmatch r (drop n t))"
      by (simp only: Suc.IH [of t])
    then show ?thesis unfolding Cons by auto
  qed
qed

lemma fullmatch_Seq_Alt:
  "fullmatch (Seq (Alt a b) r) s = (fullmatch (Seq a r) s \<or> fullmatch (Seq b r) s)"
  unfolding fullmatch_Seq fullmatch_Alt by blast

lemma fullmatch_rep_opt_Cls:
  "list_all p s \<Longrightarrow> length s \<le> k \<Longrightarrow> fullmatch r [] \<Longrightarrow>
   fullmatch (Seq (rep k (opt (Cls p))) r) s"
proof (induction k arbitrary: s)
  case 0
  then show ?case by simp
next
  case (Suc k)
  have step: "fullmatch (Seq (rep (Suc k) (opt (Cls p))) r) u
        = (fullmatch (Seq (rep k (opt (Cls p))) r) u
           \<or> fullmatch (Seq (Cls p) (Seq (rep k (opt (Cls p))) r)) u)" for u
    unfolding rep.simps opt_def fullmatch_Seq_assoc fullmatch_Seq_Alt fullmatch_Seq_Eps ..
  show ?case
  proof (cases s)
    case Nil
    with Suc.IH [of "[]"] Suc.prems show ?thesis unfolding step by simp
  next
    case (Cons c t)
    with Suc.IH [of t] Suc.prems show ?thesis unfolding step by simp
  qed
qed

lemma name_length_ok:
  assumes "10 \<le> length s" and "length s \<le> 50" and "list_all not_newline s"
  shows "fullmatch (Seq (between 10 50 (Cls not_newline)) (opt (chr (CHR 0x0A)))) s"
proof -
  have "fullmatch (Seq (rep 40 (opt (Cls not_newline))) (opt (chr (CHR 0x0A)))) (drop 10 s)"
    using assms by (intro fullmatch_rep_opt_Cls) (auto simp: opt_def list_all_iff dest: in_set_dropD)
  moreover have "list_all not_newline (take 10 s)"
    using assms(3) by (auto simp: list_all_iff dest: in_set_takeD)
  ultimately show ?thesis
    using assms(1) unfolding between_def fullmatch_Seq_assoc fullmatch_rep_Cls_Seq by simp
qed


text \<open>
  From here on a match against a concrete string is decided by the facts above, not by
  unfolding derivatives.
\<close>

lemma fullmatch_Seq_Cls_Nil [simp]: "fullmatch (Seq (Cls p) r) [] = False"
  by simp

declare fullmatch.simps(2) [simp del]

section \<open>The Luhn checksum\<close>

lemma digit_value_digit_char: "n < 10 \<Longrightarrow> digit_value (digit_char n) = n"
  by (simp add: digit_value_def digit_char_def)

lemma digit_value_lt: "is_digit c \<Longrightarrow> digit_value c < 10"
  by (auto simp: is_digit_def in_range_def digit_value_def)

lemma digits_of_one: "n < 10 \<Longrightarrow> digits_of n = [n]"
  by (simp add: digits_of_def str_nat.simps digit_value_digit_char)

lemma digits_of_two:
  assumes "10 \<le> n" and "n < 100"
  shows "digits_of n = [n div 10, n mod 10]"
proof -
  from assms have "n div 10 < 10" by simp
  with assms show ?thesis
    by (simp add: digits_of_def str_nat.simps [of n] str_nat.simps [of "n div 10"]
        digit_value_digit_char)
qed

lemma sum_digits_double:
  assumes "d < 10"
  shows "sum_list (digits_of (d * 2)) = spec_luhn_term 1 d"
proof (cases "d * 2 < 10")
  case True
  then show ?thesis by (simp add: digits_of_one spec_luhn_term_def mult.commute)
next
  case False
  with assms have "10 \<le> d * 2" "d * 2 < 100" by simp_all
  then have "digits_of (d * 2) = [(d * 2) div 10, (d * 2) mod 10]" by (rule digits_of_two)
  with False show ?thesis by (simp add: spec_luhn_term_def mult.commute)
qed

lemma checksum_loop_sum:
  "checksum_loop ds acc = acc + sum_list (map (\<lambda>d. sum_list (digits_of (d * 2))) ds)"
  by (induction ds arbitrary: acc) auto

lemma spec_term_shift: "spec_luhn_term (Suc (Suc i)) d = spec_luhn_term i d"
  by (simp add: spec_luhn_term_def)

lemma every_other_Cons: "every_other (y # xs) = y # every_other (drop 1 xs)"
  by (cases xs) auto

lemma luhn_pairs:
  "\<forall>d\<in>set xs. d < 10 \<Longrightarrow>
   sum_list (every_other xs)
     + sum_list (map (\<lambda>d. sum_list (digits_of (d * 2))) (every_other (drop 1 xs)))
   = (\<Sum>i<length xs. spec_luhn_term i (xs ! i))"
proof (induction xs rule: every_other.induct)
  case 1
  then show ?case by simp
next
  case (2 x)
  then show ?case by (simp add: spec_luhn_term_def)
next
  case (3 x y xs)
  have "(\<Sum>i<length (x # y # xs). spec_luhn_term i ((x # y # xs) ! i))
        = spec_luhn_term 0 x + (spec_luhn_term 1 y + (\<Sum>i<length xs. spec_luhn_term i (xs ! i)))"
    by (simp add: sum.lessThan_Suc_shift spec_term_shift del: sum.lessThan_Suc)
  moreover have "sum_list (digits_of (y * 2)) = spec_luhn_term 1 y"
    using 3(2) by (simp add: sum_digits_double)
  moreover have "spec_luhn_term 0 x = x" by (simp add: spec_luhn_term_def)
  moreover have "sum_list (every_other (x # y # xs)) +
      sum_list (map (\<lambda>d. sum_list (digits_of (d * 2))) (every_other (drop 1 (x # y # xs))))
      = x + (sum_list (digits_of (y * 2)) + (sum_list (every_other xs) +
         sum_list (map (\<lambda>d. sum_list (digits_of (d * 2))) (every_other (drop 1 xs)))))"
    by (simp add: every_other_Cons)
  moreover have "sum_list (every_other xs) +
         sum_list (map (\<lambda>d. sum_list (digits_of (d * 2))) (every_other (drop 1 xs)))
         = (\<Sum>i<length xs. spec_luhn_term i (xs ! i))"
    using 3 by simp
  ultimately show ?case by (simp only:)
qed

lemma luhn_checksum_spec:
  assumes "list_all is_digit s"
  shows "luhn_checksum s = spec_luhn_sum (digits_of_str s)"
proof -
  from assms have "\<forall>d\<in>set (rev (digits_of_str s)). d < 10"
    by (auto simp: digits_of_str_def list_all_iff digit_value_lt)
  from luhn_pairs [OF this] show ?thesis
    by (simp add: Let_def luhn_checksum_def checksum_loop_sum odd_digits_def even_digits_def
        spec_luhn_sum_def)
qed

lemma credit_card_shape:
  "fullmatch (rep 16 (Cls (in_range CHR ''0'' CHR ''9''))) s = (length s = 16 \<and> list_all is_digit s)"
proof -
  have "in_range CHR ''0'' CHR ''9'' = is_digit" by (rule ext) (simp add: is_digit_def)
  then show ?thesis by (simp add: fullmatch_rep_Cls)
qed

section \<open>Credit cards\<close>

text \<open>
  Claim C2. \<^verbatim>\<open>validatecreditcard\<close> raises the format error on every string that is not
  exactly 16 decimal digits. On a string of exactly 16 digits it returns the string
  unchanged if and only if the Luhn sum of the specification (every second digit from
  the right doubled, the digits of each doubled value added, all added up) is divisible
  by 10, and raises the checksum error otherwise; the two errors are different.
\<close>

theorem validatecreditcard_luhn:
  "validatecreditcard cc =
     (if \<not> (length cc = 16 \<and> list_all is_digit cc)
      then Inl (HotelManagementException ''Invalid credit card format'')
      else if spec_luhn_sum (digits_of_str cc) mod 10 = 0 then Inr cc
      else Inl (HotelManagementException ''Invalid credit card number (not luhn)''))
   \<and> HotelManagementException ''Invalid credit card format''
       \<noteq> HotelManagementException ''Invalid credit card number (not luhn)''"
  by (simp add: validatecreditcard_def credit_card_shape luhn_checksum_spec)

theorem validatecreditcard_luhn_witness:
  "validatecreditcard ''5555555555554444'' = Inr ''5555555555554444''
   \<and> spec_luhn_sum (digits_of_str ''5555555555554444'') mod 10 = 0
   \<and> validatecreditcard ''5555555555554445''
       = Inl (HotelManagementException ''Invalid credit card number (not luhn)'')
   \<and> validatecreditcard ''555555555555444''
       = Inl (HotelManagementException ''Invalid credit card format'')"
proof -
  have a: "length ''5555555555554444'' = 16 \<and> list_all is_digit ''5555555555554444''"
    by (simp add: is_digit_def in_range_def)
  have b: "length ''5555555555554445'' = 16 \<and> list_all is_digit ''5555555555554445''"
    by (simp add: is_digit_def in_range_def)
  have c: "spec_luhn_sum (digits_of_str ''5555555555554444'') = 60"
    by (simp add: spec_luhn_sum_def digits_of_str_def digit_value_def spec_luhn_term_def
        lessThan_nat_numeral lessThan_Suc)
  have d: "spec_luhn_sum (digits_of_str ''5555555555554445'') = 61"
    by (simp add: spec_luhn_sum_def digits_of_str_def digit_value_def spec_luhn_term_def
        lessThan_nat_numeral lessThan_Suc)
  show ?thesis
    using validatecreditcard_luhn [of "''5555555555554444''"]
      validatecreditcard_luhn [of "''5555555555554445''"]
      validatecreditcard_luhn [of "''555555555555444''"] a b c d
    by simp
qed

section \<open>Identity cards\<close>

lemma in_range_digit: "in_range CHR ''0'' CHR ''9'' = is_digit"
  by (rule ext) (simp add: is_digit_def)

lemma in_range_upper: "in_range CHR ''A'' CHR ''Z'' = is_upper"
  by (rule ext) (simp add: is_upper_def)

lemma id_card_shape:
  "fullmatch (Seq (rep 8 (Cls (in_range CHR ''0'' CHR ''9''))) (rep 1 (Cls (in_range CHR ''A'' CHR ''Z'')))) s
   = (length s = 9 \<and> list_all is_digit (take 8 s) \<and> is_upper (s ! 8))"
proof -
  have d: "drop 8 s = [s ! 8]" if "length s = 9"
    using that Cons_nth_drop_Suc [of 8 s] by simp
  have "(8 \<le> length s \<and> length (drop 8 s) = 1 \<and> list_all is_upper (drop 8 s))
        = (length s = 9 \<and> is_upper (s ! 8))"
  proof (cases "length s = 9")
    case True
    then show ?thesis by (simp add: d)
  next
    case False
    then show ?thesis by auto
  qed
  then show ?thesis
    unfolding in_range_digit in_range_upper fullmatch_rep_Cls_Seq fullmatch_rep_Cls by blast
qed

lemma int_body_digits:
  "s \<noteq> [] \<Longrightarrow> list_all is_digit s \<Longrightarrow>
   int_body s acc = Some (foldl (\<lambda>n c. 10 * n + digit_value c) acc s)"
proof (induction s acc rule: int_body.induct)
  case (1 acc)
  then show ?case by simp
next
  case (2 c acc)
  then show ?case by simp
next
  case (3 c d t acc)
  from 3(4) have d: "is_digit d" by simp
  then have "d \<noteq> CHR ''_''" by (auto simp: is_digit_def in_range_def)
  with 3 show ?case by simp
qed

lemma digit_not_space: "is_digit c \<Longrightarrow> \<not> is_space c"
  by (auto simp: is_digit_def is_space_def in_range_def)

lemma strip_digits: "list_all is_digit s \<Longrightarrow> strip s = s"
proof (cases s)
  case Nil
  then show ?thesis by (simp add: strip_def)
next
  case (Cons c t)
  assume a: "list_all is_digit s"
  with Cons have 1: "dropWhile is_space s = s" by (simp add: digit_not_space)
  from Cons have ne: "s \<noteq> []" by simp
  then have "last s \<in> set s" by (rule last_in_set)
  with a have "is_digit (last s)" by (simp add: list_all_iff)
  moreover from ne have "hd (rev s) = last s" by (simp add: hd_rev)
  ultimately have "\<not> is_space (hd (rev s))" by (simp add: digit_not_space)
  moreover from ne have "rev s \<noteq> []" by simp
  ultimately have "dropWhile is_space (rev s) = rev s" by (cases "rev s") simp_all
  with 1 show ?thesis by (simp add: strip_def)
qed

lemma int_of_str_digits:
  assumes "s \<noteq> []" and "list_all is_digit s"
  shows "int_of_str s = Some (int (spec_decimal_value s))"
proof -
  obtain c t where s: "s = c # t" using assms(1) by (cases s) auto
  with assms(2) have "is_digit c" by simp
  then have "c \<noteq> CHR ''-''" "c \<noteq> CHR ''+''" by (auto simp: is_digit_def in_range_def)
  then have "int_of_str (c # t) = map_option int (int_body (c # t) 0)"
    using strip_digits [OF assms(2)] unfolding s int_of_str_def by simp
  then show ?thesis
    using int_body_digits [OF assms, of 0] unfolding s spec_decimal_value_def by simp
qed

lemma dni_table_all:
  "\<forall>k\<in>set [0..<23]. dni_letter_dict (str_nat k) = Some (spec_dni_table ! k)"
  by code_simp

lemma dni_table: "k < 23 \<Longrightarrow> dni_letter_dict (str_nat k) = Some (spec_dni_table ! k)"
  using dni_table_all by simp

lemma check_id_card_eq:
  "check_id_card idc =
     (if \<not> (length idc = 9 \<and> list_all is_digit (take 8 idc) \<and> is_upper (idc ! 8))
      then Inl (HotelManagementException ''Invalid IdCard format'')
      else if idc ! 8 = spec_dni_table ! (spec_decimal_value (take 8 idc) mod 23) then Inr ()
      else Inl (HotelManagementException ''Invalid IdCard letter''))"
proof (cases "length idc = 9 \<and> list_all is_digit (take 8 idc) \<and> is_upper (idc ! 8)")
  case False
  then show ?thesis unfolding check_id_card_def id_card_shape by simp
next
  case True
  then have ne: "take 8 idc \<noteq> []" by auto
  from True have i: "int_of_str (take 8 idc) = Some (int (spec_decimal_value (take 8 idc)))"
    by (intro int_of_str_digits [OF ne]) simp
  have m: "nat (int (spec_decimal_value (take 8 idc)) mod 23) = spec_decimal_value (take 8 idc) mod 23"
    by (simp add: nat_mod_distrib)
  have "dni_letter_dict (str_nat (spec_decimal_value (take 8 idc) mod 23))
        = Some (spec_dni_table ! (spec_decimal_value (take 8 idc) mod 23))"
    by (rule dni_table) simp
  with True i m show ?thesis
    unfolding check_id_card_def id_card_shape
    by (simp add: validate_dni_def bind_result_def Let_def spec_dni_table_def)
qed

text \<open>
  Claim C3. \<^verbatim>\<open>check_id_card\<close> raises the shape error on every string that is not
  exactly 8 decimal digits followed by one uppercase letter. On a string of that shape it
  succeeds if and only if the last letter is the entry of the table
  \<^verbatim>\<open>TRWAGMYFPDXBNJZSQVHLCKE\<close> at the index (numeric part mod 23), and raises the
  check-letter error otherwise; the two errors are different.
\<close>

theorem check_id_card_letter:
  "check_id_card idc =
     (if \<not> (length idc = 9 \<and> list_all is_digit (take 8 idc) \<and> is_upper (idc ! 8))
      then Inl (HotelManagementException ''Invalid IdCard format'')
      else if idc ! 8 = spec_dni_table ! (spec_decimal_value (take 8 idc) mod 23) then Inr ()
      else Inl (HotelManagementException ''Invalid IdCard letter''))
   \<and> HotelManagementException ''Invalid IdCard format''
       \<noteq> HotelManagementException ''Invalid IdCard letter''
   \<and> length spec_dni_table = 23"
  using check_id_card_eq [of idc] by (simp add: spec_dni_table_def)

theorem check_id_card_letter_witness:
  "check_id_card ''12345678Z'' = Inr ()
   \<and> check_id_card ''12345678A'' = Inl (HotelManagementException ''Invalid IdCard letter'')
   \<and> check_id_card ''1234567Z'' = Inl (HotelManagementException ''Invalid IdCard format'')"
  using check_id_card_letter [of "''12345678Z''"] check_id_card_letter [of "''12345678A''"]
    check_id_card_letter [of "''1234567Z''"]
  by (simp add: is_digit_def is_upper_def in_range_def spec_dni_table_def spec_decimal_value_def
      digit_value_def)


section \<open>Validators return their argument\<close>

lemma int_of_str_3: "int_of_str ''3'' = Some 3"
  by (simp add: int_of_str_def strip_def is_space_def in_range_def is_digit_def digit_value_def)

text \<open>
  Claim C10. Every field validator returns its argument unchanged whenever it does not
  raise: \<^verbatim>\<open>validatecreditcard\<close>, \<^verbatim>\<open>validate_room_type\<close>, \<^verbatim>\<open>validate_arrival_date\<close>,
  \<^verbatim>\<open>validate_phonenumber\<close>, \<^verbatim>\<open>validate_localizer\<close> and \<^verbatim>\<open>validate_numdays\<close>. The last one
  accepts exactly the values whose conversion with \<^verbatim>\<open>int()\<close> lies in 1..10, and returns
  the value as it was handed in (the string \<^verbatim>\<open>'3'\<close> stays a string).
\<close>

theorem validators_identity:
  "(\<forall>y. validatecreditcard cc = Inr y \<longrightarrow> y = cc)
   \<and> (\<forall>y. validate_room_type rt = Inr y \<longrightarrow> y = rt)
   \<and> (\<forall>y. validate_arrival_date ad = Inr y \<longrightarrow> y = ad)
   \<and> (\<forall>y. validate_phonenumber pn = Inr y \<longrightarrow> y = pn)
   \<and> (\<forall>y. validate_localizer lz = Inr y \<longrightarrow> y = lz)
   \<and> (\<forall>y. validate_numdays nd = Inr y \<longrightarrow> y = nd)
   \<and> (validate_numdays nd = Inr nd \<longleftrightarrow> (\<exists>days. py_int nd = Some days \<and> 1 \<le> days \<and> days \<le> 10))"
  by (auto simp: validatecreditcard_def validate_room_type_def validate_arrival_date_def
      validate_phonenumber_def validate_localizer_def validate_numdays_def
      split: if_splits option.splits)

theorem validators_identity_witness:
  "validate_numdays (PyStr ''3'') = Inr (PyStr ''3'')
   \<and> validate_numdays (PyStr ''3'') \<noteq> Inr (PyInt 3)
   \<and> validate_numdays (PyInt 3) = Inr (PyInt 3)
   \<and> validate_room_type ''SUITE'' = Inr ''SUITE''"
proof -
  have "\<exists>days. py_int (PyStr ''3'') = Some days \<and> 1 \<le> days \<and> days \<le> 10"
    by (simp add: int_of_str_3)
  moreover have "validate_room_type ''SUITE'' = Inr ''SUITE''"
    by (simp add: validate_room_type_def chr_def)
  ultimately show ?thesis
    using validators_identity [of "''5555555555554444''" "''SUITE''" "''20/01/2024''" "''+341234567''"
        "''0123456789abcdef0123456789abcdef''" "PyStr ''3''"]
    by (simp add: validate_numdays_def)
qed


section \<open>Arrival dates\<close>

text \<open>
  Claim C8. The claim says that \<^verbatim>\<open>validate_arrival_date\<close> accepts the days 30 and 31.
  The pattern of the source reads \<^verbatim>\<open>-3[0-1]\<close> where \<^verbatim>\<open>3[0-1]\<close> is meant: every string
  that starts with the digit 3 is rejected, \<^verbatim>\<open>30/01/2024\<close> and \<^verbatim>\<open>31/12/2024\<close> among them,
  while \<^verbatim>\<open>-30/01/2024\<close> is accepted, as is 29.
\<close>

theorem validate_arrival_date_day_30:
  "validate_arrival_date (CHR ''3'' # rest) = Inl (HotelManagementException ''Invalid date format'')
   \<and> validate_arrival_date ''30/01/2024'' = Inl (HotelManagementException ''Invalid date format'')
   \<and> validate_arrival_date ''31/12/2024'' = Inl (HotelManagementException ''Invalid date format'')
   \<and> validate_arrival_date ''-30/01/2024'' = Inr ''-30/01/2024''
   \<and> validate_arrival_date ''29/01/2024'' = Inr ''29/01/2024''"
  by (simp add: validate_arrival_date_def arrival_date_rx_def chr_def in_range_def is_digit_def
      fullmatch_Seq_Alt fullmatch_Seq_assoc)

section \<open>A valid request\<close>

lemma name_words_ok:
  "fullmatch (Seq (plus_rx (Cls is_letter)) (plus_rx (Seq (Cls is_space) (plus_rx (Cls is_letter)))))
     ''Jose Lopez Perez''"
  by code_simp

lemma sample_name_ok: "fullmatch name_surname_rx ''Jose Lopez Perez''"
  unfolding name_surname_rx_def fullmatch_Both
  by (intro conjI name_length_ok name_words_ok) (simp_all add: not_newline_def)

section \<open>Actions on the stores\<close>

lemma leaves_pure: "leaves_stores (pure_action r)"
  by (simp add: leaves_stores_def pure_action_def)

lemma leaves_read: "leaves_stores (read_store file load)"
  by (simp add: leaves_stores_def read_store_def)

lemma aon_bind:
  assumes "leaves_stores m" and "\<And>x. all_or_nothing (f x)"
  shows "all_or_nothing (bind_action m f)"
  unfolding all_or_nothing_def
proof (intro allI impI)
  fix fs e
  assume a: "fst (bind_action m f fs) = Inl e"
  obtain r fs' where m: "m fs = (r, fs')" by (cases "m fs")
  with assms(1) have fs': "fs' = fs" by (auto simp: leaves_stores_def dest: spec [where x = fs])
  show "snd (bind_action m f fs) = fs"
  proof (cases r)
    case (Inl err)
    with m fs' show ?thesis by (simp add: bind_action_def)
  next
    case (Inr x)
    with m fs' a have "fst (f x fs) = Inl e" by (simp add: bind_action_def)
    with assms(2) [of x] have "snd (f x fs) = fs" by (simp add: all_or_nothing_def)
    with Inr m fs' show ?thesis by (simp add: bind_action_def)
  qed
qed

lemma aon_write_return:
  "all_or_nothing (bind_action (write_into_json put) (\<lambda>_. pure_action (Inr v)))"
  by (simp add: all_or_nothing_def bind_action_def write_into_json_def pure_action_def)

lemma aon_write: "all_or_nothing (write_into_json put)"
  by (simp add: all_or_nothing_def write_into_json_def)

lemma aon_then_return:
  assumes "all_or_nothing m"
  shows "all_or_nothing (bind_action m (\<lambda>x. pure_action (Inr (g x))))"
  unfolding all_or_nothing_def
proof (intro allI impI)
  fix fs e
  assume a: "fst (bind_action m (\<lambda>x. pure_action (Inr (g x))) fs) = Inl e"
  obtain r fs' where m: "m fs = (r, fs')" by (cases "m fs")
  show "snd (bind_action m (\<lambda>x. pure_action (Inr (g x))) fs) = fs"
  proof (cases r)
    case (Inl err)
    with m assms have "fs' = fs" by (auto simp: all_or_nothing_def dest: spec [where x = fs])
    with Inl m show ?thesis by (simp add: bind_action_def)
  next
    case (Inr x)
    with m a show ?thesis by (simp add: bind_action_def pure_action_def)
  qed
qed

lemma aon_case_prod:
  assumes "\<And>a b. all_or_nothing (f a b)"
  shows "all_or_nothing (case_prod f p)"
  using assms by (cases p) simp

lemma aon_case_loaded:
  assumes "\<And>x. all_or_nothing (f x)" and "\<And>v. all_or_nothing (g v)"
  shows "all_or_nothing (case l of Shaped x \<Rightarrow> f x | Unshaped v \<Rightarrow> g v)"
  using assms by (cases l) simp_all

lemma aon_room_reservation_unshaped: "all_or_nothing (room_reservation_unshaped my v)"
  unfolding room_reservation_unshaped_def
  by (intro aon_bind leaves_pure aon_write_return)

lemma aon_room_reservation:
  "all_or_nothing (room_reservation e cc name idc phone rtype arr days)"
  unfolding room_reservation_def
  by (intro aon_bind leaves_pure leaves_read aon_case_loaded aon_write_return
      aon_room_reservation_unshaped)

lemma aon_save_checkin_unshaped: "all_or_nothing (save_checkin_unshaped st v)"
  unfolding save_checkin_unshaped_def
  by (intro aon_bind leaves_pure aon_write)

lemma aon_save_checkin: "all_or_nothing (save_checkin st)"
  unfolding save_checkin_def
  by (intro aon_bind leaves_pure leaves_read aon_case_loaded aon_write
      aon_save_checkin_unshaped)

lemma aon_guest_arrival_unshaped: "all_or_nothing (guest_arrival_unshaped e idc loc v)"
  unfolding guest_arrival_unshaped_def Let_def
  by (intro aon_bind leaves_pure aon_case_prod aon_then_return aon_save_checkin)

lemma aon_guest_arrival: "all_or_nothing (guest_arrival e file_input)"
  unfolding guest_arrival_def Let_def
  by (intro aon_bind leaves_pure leaves_read aon_case_prod aon_case_loaded aon_then_return
      aon_save_checkin aon_guest_arrival_unshaped)

lemma aon_write_checkout_unshaped: "all_or_nothing (write_checkout_unshaped rk c v)"
  unfolding write_checkout_unshaped_def
  by (intro aon_bind leaves_pure aon_write_return)

lemma aon_checkout: "all_or_nothing (checkout e rk)"
  unfolding checkout_def Let_def
  by (intro aon_bind leaves_pure leaves_read aon_case_loaded aon_write_return
      aon_write_checkout_unshaped)


lemma bind_action_apply:
  "bind_action m f fs = (case m fs of (Inl e, fs') \<Rightarrow> (Inl e, fs') | (Inr x, fs') \<Rightarrow> f x fs')"
  by (simp add: bind_action_def)

lemma pure_action_apply: "pure_action r fs = (r, fs)"
  by (simp add: pure_action_def)

lemma read_store_apply: "read_store file load fs = (load (file fs), fs)"
  by (simp add: read_store_def)

lemmas action_simps = bind_action_apply pure_action_apply read_store_apply

lemma not_in_list_Inr:
  "(reservation_not_in_list my xs = Inr ()) =
   (\<forall>item\<in>set xs. localizer my \<noteq> localizer item \<and> id_card my \<noteq> id_card item)"
  by (induction xs) simp_all

lemma not_in_list_Inl:
  "reservation_not_in_list my xs = Inl er \<Longrightarrow>
   er = HotelManagementException ''Reservation already exists''
   \<or> er = HotelManagementException ''This ID card has another reservation''"
proof (induction xs)
  case Nil
  then show ?case by simp
next
  case (Cons item xs)
  show ?case
  proof (cases "localizer my = localizer item")
    case True
    with Cons.prems show ?thesis by simp
  next
    case False
    note nl = this
    show ?thesis
    proof (cases "id_card my = id_card item")
      case True
      with nl Cons.prems show ?thesis by simp
    next
      case False
      with nl Cons.prems have "reservation_not_in_list my xs = Inl er" by simp
      then show ?thesis by (rule Cons.IH)
    qed
  qed
qed

lemma not_in_list_localizer:
  "\<exists>item\<in>set xs. localizer my = localizer item \<Longrightarrow>
   \<forall>item\<in>set xs. localizer my \<noteq> localizer item \<longrightarrow> id_card my \<noteq> id_card item \<Longrightarrow>
   reservation_not_in_list my xs = Inl (HotelManagementException ''Reservation already exists'')"
proof (induction xs)
  case Nil
  then show ?case by simp
next
  case (Cons item xs)
  show ?case
  proof (cases "localizer my = localizer item")
    case True
    then show ?thesis by simp
  next
    case False
    with Cons.prems have "id_card my \<noteq> id_card item"
      "\<exists>item\<in>set xs. localizer my = localizer item"
      "\<forall>item\<in>set xs. localizer my \<noteq> localizer item \<longrightarrow> id_card my \<noteq> id_card item"
      by simp_all
    with False Cons.IH show ?thesis by simp
  qed
qed

lemma not_in_list_id_card:
  "\<exists>item\<in>set xs. id_card my = id_card item \<Longrightarrow>
   \<forall>item\<in>set xs. localizer my \<noteq> localizer item \<Longrightarrow>
   reservation_not_in_list my xs = Inl (HotelManagementException ''This ID card has another reservation'')"
proof (induction xs)
  case Nil
  then show ?case by simp
next
  case (Cons item xs)
  from Cons.prems have nl: "localizer my \<noteq> localizer item"
    "\<forall>item\<in>set xs. localizer my \<noteq> localizer item" by simp_all
  show ?case
  proof (cases "id_card my = id_card item")
    case True
    with nl show ?thesis by simp
  next
    case False
    with Cons.prems have "\<exists>item\<in>set xs. id_card my = id_card item" by simp
    with False nl Cons.IH show ?thesis by simp
  qed
qed

lemma room_reservation_run:
  assumes "check_id_card idc = Inr ()"
    and "validate_room_type rtype = Inr rtype"
    and "check_data e arr cc idc name days phone rtype = Inr my"
    and "store_data_into_list_if_file_exists (store_reservation fs) = Inr (Shaped xs)"
  shows "room_reservation e cc name idc phone rtype arr days fs =
     (case reservation_not_in_list my xs of
        Inl er \<Rightarrow> (Inl er, fs)
      | Inr _ \<Rightarrow>
          if path_exists fs
          then (Inr (localizer my), fs\<lparr>store_reservation := Json (xs @ [my])\<rparr>)
          else (Inl (HotelManagementException ''Wrong file  or file path''), fs))"
  using assms
  by (simp add: room_reservation_def action_simps write_into_json_def split: sum.splits)

lemma find_reservation_filter:
  "find_reservation loc xs found =
     (if filter (\<lambda>item. loc = localizer item) xs = [] then found
      else Some (last (filter (\<lambda>item. loc = localizer item) xs)))"
  by (induction xs arbitrary: found) simp_all

lemma find_departure_filter:
  "find_departure rk ys found =
     (if filter (\<lambda>item. rk = room_key item) ys = [] then found
      else Some (departure (last (filter (\<lambda>item. rk = room_key item) ys))))"
  by (induction ys arbitrary: found) simp_all


lemma create_new_reservation_run:
  assumes "find_reservation loc xs None = Some item"
  shows "create_new_reservation e idc loc xs =
     (if idc \<noteq> id_card item
      then Inl (HotelManagementException ''Error: Localizer is not correct for this IdCard'')
      else if localizer (HotelReservation e (reservation_date item) (id_card item)
                 (credit_card_number item) (name_surname item) (phone_number item)
                 (room_type item) (arrival item) (num_days item)) \<noteq> loc
      then Inl (HotelManagementException ''Error: reservation has been manipulated'')
      else Inr (arrival item, num_days item, room_type item))"
  using assms
  by (simp add: create_new_reservation_def generate_reservation_def bind_result_def Let_def)

lemma create_new_reservation_missing:
  assumes "find_reservation loc xs None = None"
  shows "create_new_reservation e idc loc xs
         = Inl (HotelManagementException ''Error: localizer not found'')"
  using assms by (simp add: create_new_reservation_def)

lemma save_checkin_run:
  assumes "store_data_into_list_if_file_exists (store_check_in fs) = Inr (Shaped ys)"
  shows "save_checkin st fs =
     (case checkin_not_in_list st ys of
        Inl er \<Rightarrow> (Inl er, fs)
      | Inr _ \<Rightarrow>
          if path_exists fs then (Inr (), fs\<lparr>store_check_in := Json (ys @ [st])\<rparr>)
          else (Inl (HotelManagementException ''Wrong file  or file path''), fs))"
  using assms
  by (simp add: save_checkin_def action_simps write_into_json_def split: sum.splits)

lemma guest_arrival_run:
  assumes "get_and_validate_json m = Inr (idc, loc)"
    and "store_reservation fs = Json xs"
  shows "guest_arrival e (Json m) fs =
     (case create_new_reservation e idc loc xs of
        Inl er \<Rightarrow> (Inl er, fs)
      | Inr (arr, days, rtype) \<Rightarrow>
          (case check_equals_date e arr of
             Inl er \<Rightarrow> (Inl er, fs)
           | Inr _ \<Rightarrow>
               (case int_of_days days of
                  Inl er \<Rightarrow> (Inl er, fs)
                | Inr n \<Rightarrow>
                    (case save_checkin (HotelStay e idc n loc (JStr rtype)) fs of
                       (Inl er, fs') \<Rightarrow> (Inl er, fs')
                     | (Inr _, fs') \<Rightarrow>
                         (Inr (room_key (HotelStay e idc n loc (JStr rtype))), fs')))))"
  using assms
  by (simp add: guest_arrival_def action_simps store_json_into_list_def Let_def
      split: sum.splits prod.splits)

lemma checkout_run:
  assumes "validate_roomkey rk = Inr rk"
    and "store_check_in fs = Json ys"
    and "find_departure rk ys None = Some ts"
  shows "checkout e rk fs =
     (if fromtimestamp_date e ts \<noteq> utcnow_date e
      then (Inl (HotelManagementException ''Error: today is not the departure day''), fs)
      else case store_data_into_list_if_file_exists (store_check_out fs) of
             Inl er \<Rightarrow> (Inl er, fs)
           | Inr (Shaped zs) \<Rightarrow>
               (case not_checked_out rk zs of
                  Inl er \<Rightarrow> (Inl er, fs)
                | Inr _ \<Rightarrow>
                    if path_exists fs
                    then (Inr True, fs\<lparr>store_check_out :=
                            Json (zs @ [\<lparr>checkout_room_key = rk,
                                         checkout_time = utcnow_timestamp e\<rparr>])\<rparr>)
                    else (Inl (HotelManagementException ''Wrong file  or file path''), fs))
           | Inr (Unshaped v) \<Rightarrow>
               write_checkout_unshaped rk
                 \<lparr>checkout_room_key = rk, checkout_time = utcnow_timestamp e\<rparr> v fs)"
  using assms
  by (simp add: checkout_def action_simps store_json_into_list_def write_into_json_def Let_def
      split: sum.splits loaded.splits)

lemma checkout_missing:
  assumes "validate_roomkey rk = Inr rk"
    and "store_check_in fs = Json ys"
    and "find_departure rk ys None = None"
  shows "checkout e rk fs = (Inl (HotelManagementException ''Error: room key not found''), fs)"
  using assms
  by (simp add: checkout_def action_simps store_json_into_list_def)

section \<open>The sample hotel at work\<close>

lemma sample_id_ok: "check_id_card ''12345678Z'' = Inr ()"
  using check_id_card_eq [of "''12345678Z''"]
  by (simp add: is_digit_def is_upper_def in_range_def spec_dni_table_def spec_decimal_value_def
      digit_value_def)

lemma sample_card_ok: "validatecreditcard ''5555555555554444'' = Inr ''5555555555554444''"
proof -
  have a: "length ''5555555555554444'' = 16 \<and> list_all is_digit ''5555555555554444''"
    by (simp add: is_digit_def in_range_def)
  have "spec_luhn_sum (digits_of_str ''5555555555554444'') = 60"
    by (simp add: spec_luhn_sum_def digits_of_str_def digit_value_def spec_luhn_term_def
        lessThan_nat_numeral lessThan_Suc)
  with a show ?thesis
    by (simp add: validatecreditcard_def credit_card_shape luhn_checksum_spec)
qed

lemma sample_room_ok: "validate_room_type ''SINGLE'' = Inr ''SINGLE''"
  by (simp add: validate_room_type_def chr_def)

lemma sample_date_ok: "validate_arrival_date ''20/01/2024'' = Inr ''20/01/2024''"
  by (simp add: validate_arrival_date_def arrival_date_rx_def chr_def in_range_def is_digit_def
      fullmatch_Seq_Alt fullmatch_Seq_assoc)

lemma sample_phone_ok: "validate_phonenumber ''+341234567'' = Inr ''+341234567''"
  by (simp add: validate_phonenumber_def chr_def fullmatch_rep_Cls in_range_def)

lemma sample_days_ok: "validate_numdays (PyInt 3) = Inr (PyInt 3)"
  by (simp add: validate_numdays_def)

lemma sample_localizer_ok:
  "validate_localizer ''0123456789abcdef0123456789abcdef'' = Inr ''0123456789abcdef0123456789abcdef''"
  by (simp add: validate_localizer_def fullmatch_rep_Cls is_hex_def in_range_def)

lemma sample_check_data:
  "check_data sample_env ''20/01/2024'' ''5555555555554444'' ''12345678Z'' ''Jose Lopez Perez''
     (PyInt 3) ''+341234567'' ''SINGLE'' = Inr sample_reservation"
  using sample_name_ok
  by (simp add: check_data_def sample_card_ok sample_date_ok sample_phone_ok
      sample_days_ok bind_result_def HotelReservation_def sample_env_def sample_digest_def
      sample_reservation_def)

lemma sample_input_ok:
  "get_and_validate_json sample_input = Inr (''12345678Z'', ''0123456789abcdef0123456789abcdef'')"
  by (simp add: get_and_validate_json_def sample_input_def sample_id_ok sample_localizer_ok
      bind_result_def)



lemma sample_duplicate:
  "room_reservation sample_env ''5555555555554444'' ''Jose Lopez Perez'' ''12345678Z''
     ''+341234567'' ''SINGLE'' ''20/01/2024'' (PyInt 3) sample_stores
   = (Inl (HotelManagementException ''Reservation already exists''), sample_stores)"
proof -
  have "store_data_into_list_if_file_exists (store_reservation sample_stores)
        = Inr (Shaped [sample_reservation])"
    by (simp add: store_data_into_list_if_file_exists_def sample_stores_def)
  from room_reservation_run [OF sample_id_ok sample_room_ok sample_check_data this]
  show ?thesis by simp
qed

lemma sample_arrival_wrong_day:
  "guest_arrival (sample_env\<lparr>utcnow_date := Date 2024 1 21\<rparr>) (Json sample_input) sample_stores
   = (Inl (HotelManagementException ''Error: today is not reservation date''), sample_stores)"
proof -
  have s: "store_reservation sample_stores = Json [sample_reservation]"
    by (simp add: sample_stores_def)
  have d: "strptime_date ''20/01/2024'' = Some (Date 2024 1 20)"
    by code_simp
  have f: "find_reservation ''0123456789abcdef0123456789abcdef'' [sample_reservation] None
           = Some sample_reservation"
    by (simp add: sample_reservation_def)
  show ?thesis
    unfolding guest_arrival_run [OF sample_input_ok s] create_new_reservation_run [OF f]
    by (simp add: sample_reservation_def HotelReservation_def sample_env_def sample_digest_def
        check_equals_date_def d)
qed

lemma sample_checkout_wrong_day:
  "guest_checkout sample_env sample_room_key (sample_stores\<lparr>store_check_in := Json [sample_stay]\<rparr>)
   = (Inl (HotelManagementException ''Error: today is not the departure day''),
      sample_stores\<lparr>store_check_in := Json [sample_stay]\<rparr>)"
proof -
  have k: "validate_roomkey sample_room_key = Inr sample_room_key"
    by (simp add: validate_roomkey_def fullmatch_rep_Cls sample_room_key_def is_hex_def in_range_def)
  have s: "store_check_in (sample_stores\<lparr>store_check_in := Json [sample_stay]\<rparr>) = Json [sample_stay]"
    by simp
  have f: "find_departure sample_room_key [sample_stay] None = Some 1706011200000000"
    by (simp add: sample_stay_def)
  show ?thesis
    unfolding guest_checkout_def checkout_run [OF k s f]
    by (simp add: sample_env_def)
qed


section \<open>A list of records read as plain JSON\<close>

text \<open>
  \<open>Json xs\<close> and \<open>JsonOther (JList (map reservation_json xs))\<close> are two readings of one
  file. The loops over records and the loops over plain JSON values agree on it, and
  each operation gives the same result on both readings of the stores, and the same
  stores after it.
\<close>

lemma reservation_not_in_items_records:
  "reservation_not_in_items my (map reservation_json xs) = reservation_not_in_list my xs"
  by (induction xs) (simp_all add: reservation_json_def)

lemma checkin_not_in_items_records:
  "checkin_not_in_items st (map stay_json ys) = checkin_not_in_list st ys"
  by (induction ys) (simp_all add: stay_json_def)

lemma not_checked_out_items_records:
  "not_checked_out_items rk (map checkout_json zs) = not_checked_out rk zs"
  by (induction zs) (simp_all add: checkout_json_def)

lemma find_departure_item_records:
  "find_departure_item rk (map stay_json ys) (map_option JNum found)
   = Inr (map_option JNum (find_departure rk ys found))"
proof (induction ys arbitrary: found)
  case Nil
  show ?case by simp
next
  case (Cons item ys)
  show ?case
  proof (cases "rk = room_key item")
    case True
    with Cons [of "Some (departure item)"] show ?thesis by (simp add: stay_json_def)
  next
    case False
    with Cons [of found] show ?thesis by (simp add: stay_json_def)
  qed
qed

lemma reservation_fields_record: "reservation_fields (reservation_json r) = Inr (stored_values r)"
  by (simp add: reservation_fields_def reservation_json_def stored_values_def bind_result_def)

lemma find_reservation_item_records:
  "find_reservation_item loc (map reservation_json xs) (map_option stored_values found)
   = Inr (map_option stored_values (find_reservation loc xs found))"
proof (induction xs arbitrary: found)
  case Nil
  show ?case by simp
next
  case (Cons item xs)
  have l: "py_getitem (reservation_json item) ''_HotelReservation__localizer''
           = Inr (JStr (localizer item))"
    by (simp add: reservation_json_def)
  show ?case
  proof (cases "loc = localizer item")
    case True
    with Cons [of "Some item"] l show ?thesis by (simp add: reservation_fields_record)
  next
    case False
    with Cons [of found] l show ?thesis by simp
  qed
qed

lemma int_of_days_json: "py_int_json (days_json days) = int_of_days days"
  by (cases days) (simp_all add: int_of_days_def)

lemma create_new_reservation_records:
  "create_new_reservation_unshaped e idc loc (JList (map reservation_json xs))
   = (case create_new_reservation e idc loc xs of
        Inl er \<Rightarrow> Inl er
      | Inr (arr, days, rtype) \<Rightarrow> Inr (JStr arr, days_json days, JStr rtype))"
  using find_reservation_item_records [of loc xs None]
  by (simp add: create_new_reservation_unshaped_def create_new_reservation_def
      generate_reservation_def HotelReservation_def bind_result_def Let_def stored_values_def
      split: option.splits)

lemma plain_simps [simp]:
  "path_exists (plain fs) = path_exists fs"
  "store_reservation (plain fs) = plain_file reservation_json (store_reservation fs)"
  "store_check_in (plain fs) = plain_file stay_json (store_check_in fs)"
  "store_check_out (plain fs) = plain_file checkout_json (store_check_out fs)"
  by (simp_all add: plain_def)

lemma plain_update:
  "plain (fs\<lparr>store_reservation := Json xs\<rparr>)
   = (plain fs)\<lparr>store_reservation := JsonOther (JList (map reservation_json xs))\<rparr>"
  "plain (fs\<lparr>store_check_in := Json ys\<rparr>)
   = (plain fs)\<lparr>store_check_in := JsonOther (JList (map stay_json ys))\<rparr>"
  "plain (fs\<lparr>store_check_out := Json zs\<rparr>)
   = (plain fs)\<lparr>store_check_out := JsonOther (JList (map checkout_json zs))\<rparr>"
  by (simp_all add: plain_def plain_file_def)

lemma plain_plain [simp]: "plain (plain fs) = plain fs"
  by (simp add: plain_def plain_file_def split: json_file.splits)

lemma plain_update_other:
  "plain (fs\<lparr>store_reservation := JsonOther v\<rparr>) = (plain fs)\<lparr>store_reservation := JsonOther v\<rparr>"
  "plain (fs\<lparr>store_check_in := JsonOther v\<rparr>) = (plain fs)\<lparr>store_check_in := JsonOther v\<rparr>"
  "plain (fs\<lparr>store_check_out := JsonOther v\<rparr>) = (plain fs)\<lparr>store_check_out := JsonOther v\<rparr>"
  by (simp_all add: plain_def plain_file_def)

lemma room_reservation_plain:
  "apsnd plain (room_reservation e cc name idc phone rtype arr days (plain fs))
   = apsnd plain (room_reservation e cc name idc phone rtype arr days fs)"
  by (cases "store_reservation fs")
     (simp_all add: room_reservation_def room_reservation_unshaped_def action_simps
       write_into_json_def store_data_into_list_if_file_exists_def plain_file_def plain_update
       plain_update_other reservation_not_in_items_records
       split: sum.splits)

lemma save_checkin_plain:
  "apsnd plain (save_checkin st (plain fs)) = apsnd plain (save_checkin st fs)"
  by (cases "store_check_in fs")
     (simp_all add: save_checkin_def save_checkin_unshaped_def action_simps
       write_into_json_def store_data_into_list_if_file_exists_def plain_file_def plain_update
       plain_update_other checkin_not_in_items_records
       split: sum.splits)

lemma then_return_plain:
  assumes "apsnd plain (m gs) = apsnd plain (m' fs)"
  shows "apsnd plain (bind_action m (\<lambda>_. pure_action (Inr k)) gs)
         = apsnd plain (bind_action m' (\<lambda>_. pure_action (Inr k)) fs)"
proof -
  obtain r gs' where a: "m gs = (r, gs')" by (cases "m gs")
  obtain r' fs' where b: "m' fs = (r', fs')" by (cases "m' fs")
  from assms a b have "r = r'" "plain gs' = plain fs'" by simp_all
  with a b show ?thesis by (cases r') (simp_all add: action_simps)
qed

lemma guest_arrival_unshaped_plain:
  "apsnd plain (guest_arrival_unshaped e idc loc v (plain fs))
   = apsnd plain (guest_arrival_unshaped e idc loc v fs)"
proof (cases "create_new_reservation_unshaped e idc loc v")
  case (Inl er)
  then show ?thesis by (simp add: guest_arrival_unshaped_def action_simps)
next
  case c: (Inr q)
  obtain arr days rtype where q: "q = (arr, days, rtype)" by (cases q)
  show ?thesis
  proof (cases "bind_result (json_str arr) (check_equals_date e)")
    case (Inl er)
    with c q show ?thesis by (simp add: guest_arrival_unshaped_def action_simps)
  next
    case d: (Inr u)
    show ?thesis
    proof (cases "py_int_json days")
      case (Inl er)
      with c q d show ?thesis by (simp add: guest_arrival_unshaped_def action_simps)
    next
      case n: (Inr n)
      let ?st = "HotelStay e idc n loc rtype"
      from then_return_plain [where m = "save_checkin ?st" and m' = "save_checkin ?st"
          and gs = "plain fs" and fs = fs and k = "room_key ?st", OF save_checkin_plain]
      have "apsnd plain (bind_action (save_checkin ?st)
                           (\<lambda>_. pure_action (Inr (room_key ?st))) (plain fs))
            = apsnd plain (bind_action (save_checkin ?st)
                             (\<lambda>_. pure_action (Inr (room_key ?st))) fs)" .
      with c q d n show ?thesis
        by (simp add: guest_arrival_unshaped_def action_simps Let_def)
    qed
  qed
qed

lemma guest_arrival_plain:
  "apsnd plain (guest_arrival e file_input (plain fs))
   = apsnd plain (guest_arrival e file_input fs)"
proof (cases "store_json_into_list file_input ''Error: file input not found''")
  case (Inl er)
  then show ?thesis by (simp add: guest_arrival_def action_simps)
next
  case (Inr input_list)
  let ?v = "case input_list of
              Shaped input_list \<Rightarrow> get_and_validate_json input_list
            | Unshaped input_list \<Rightarrow> get_and_validate_json_unshaped input_list"
  show ?thesis
  proof (cases ?v)
    case (Inl er)
    with Inr show ?thesis by (simp add: guest_arrival_def action_simps)
  next
    case ok: (Inr p)
    obtain idc loc where p: "p = (idc, loc)" by (cases p)
    show ?thesis
    proof (cases "store_reservation fs")
      case NoFile
      with Inr ok p show ?thesis
        by (simp add: guest_arrival_def action_simps store_json_into_list_def plain_file_def)
    next
      case NotJson
      with Inr ok p show ?thesis
        by (simp add: guest_arrival_def action_simps store_json_into_list_def plain_file_def)
    next
      case (JsonOther v)
      with Inr ok p guest_arrival_unshaped_plain [of e idc loc v fs] show ?thesis
        by (simp add: guest_arrival_def action_simps store_json_into_list_def plain_file_def)
    next
      case (Json xs)
      show ?thesis
      proof (cases "create_new_reservation e idc loc xs")
        case (Inl er)
        with Inr ok p Json show ?thesis
          by (simp add: guest_arrival_def guest_arrival_unshaped_def action_simps Let_def
              store_json_into_list_def plain_file_def create_new_reservation_records)
      next
        case c: (Inr q)
        obtain arr days rtype where q: "q = (arr, days, rtype)" by (cases q)
        show ?thesis
        proof (cases "check_equals_date e arr")
          case (Inl er)
          with Inr ok p Json c q show ?thesis
            by (simp add: guest_arrival_def guest_arrival_unshaped_def action_simps Let_def
                store_json_into_list_def plain_file_def create_new_reservation_records
                bind_result_def)
        next
          case d: (Inr u)
          show ?thesis
          proof (cases "int_of_days days")
            case (Inl er)
            with Inr ok p Json c q d show ?thesis
              by (simp add: guest_arrival_def guest_arrival_unshaped_def action_simps Let_def
                  store_json_into_list_def plain_file_def create_new_reservation_records
                  bind_result_def int_of_days_json)
          next
            case n: (Inr n)
            let ?st = "HotelStay e idc n loc (JStr rtype)"
            from then_return_plain [where m = "save_checkin ?st" and m' = "save_checkin ?st"
          and gs = "plain fs" and fs = fs and k = "room_key ?st", OF save_checkin_plain]
            have "apsnd plain (bind_action (save_checkin ?st)
                                 (\<lambda>_. pure_action (Inr (room_key ?st))) (plain fs))
                  = apsnd plain (bind_action (save_checkin ?st)
                                   (\<lambda>_. pure_action (Inr (room_key ?st))) fs)" .
            with Inr ok p Json c q d n show ?thesis
              by (simp add: guest_arrival_def guest_arrival_unshaped_def action_simps Let_def
                  store_json_into_list_def plain_file_def create_new_reservation_records
                  bind_result_def int_of_days_json)
          qed
        qed
      qed
    qed
  qed
qed

lemma guest_checkout_plain:
  "apsnd plain (guest_checkout e rk (plain fs)) = apsnd plain (guest_checkout e rk fs)"
  using find_departure_item_records [of rk _ None]
  by (cases "store_check_in fs"; cases "store_check_out fs")
     (simp_all add: guest_checkout_def checkout_def write_checkout_unshaped_def
       departure_day_unshaped_def action_simps Let_def
       store_json_into_list_def store_data_into_list_if_file_exists_def plain_file_def
       write_into_json_def plain_update plain_update_other not_checked_out_items_records
       bind_result_def
       split: sum.splits option.splits)

section \<open>Errors write nothing\<close>

text \<open>
  Claim C6. Whenever \<^verbatim>\<open>room_reservation\<close>, \<^verbatim>\<open>guest_arrival\<close> or \<^verbatim>\<open>guest_checkout\<close> raises
  an error, whatever the input and the stores, the three stores (and the directory) are
  afterwards what they were before: the only write of each operation comes after all
  of its checks.
\<close>

theorem errors_leave_stores:
  "(fst (room_reservation e cc name idc phone rtype arr days fs) = Inl err
      \<longrightarrow> snd (room_reservation e cc name idc phone rtype arr days fs) = fs)
   \<and> (fst (guest_arrival e file_input fs) = Inl err \<longrightarrow> snd (guest_arrival e file_input fs) = fs)
   \<and> (fst (guest_checkout e rk fs) = Inl err \<longrightarrow> snd (guest_checkout e rk fs) = fs)"
  using aon_room_reservation [of e cc name idc phone rtype arr days] aon_guest_arrival [of e file_input]
    aon_checkout [of e rk]
  unfolding all_or_nothing_def guest_checkout_def by blast

theorem errors_leave_stores_witness:
  "fst (room_reservation sample_env ''5555555555554444'' ''Jose Lopez Perez'' ''12345678Z''
     ''+341234567'' ''SINGLE'' ''20/01/2024'' (PyInt 3) sample_stores)
     = Inl (HotelManagementException ''Reservation already exists'')
   \<and> snd (room_reservation sample_env ''5555555555554444'' ''Jose Lopez Perez'' ''12345678Z''
     ''+341234567'' ''SINGLE'' ''20/01/2024'' (PyInt 3) sample_stores) = sample_stores
   \<and> fst (guest_arrival (sample_env\<lparr>utcnow_date := Date 2024 1 21\<rparr>) (Json sample_input)
          sample_stores)
     = Inl (HotelManagementException ''Error: today is not reservation date'')
   \<and> snd (guest_arrival (sample_env\<lparr>utcnow_date := Date 2024 1 21\<rparr>) (Json sample_input)
          sample_stores) = sample_stores
   \<and> fst (guest_checkout sample_env sample_room_key
          (sample_stores\<lparr>store_check_in := Json [sample_stay]\<rparr>))
     = Inl (HotelManagementException ''Error: today is not the departure day'')
   \<and> snd (guest_checkout sample_env sample_room_key
          (sample_stores\<lparr>store_check_in := Json [sample_stay]\<rparr>))
     = sample_stores\<lparr>store_check_in := Json [sample_stay]\<rparr>"
  using errors_leave_stores [where e = sample_env and cc = "''5555555555554444''"
      and name = "''Jose Lopez Perez''" and idc = "''12345678Z''" and phone = "''+341234567''"
      and rtype = "''SINGLE''" and arr = "''20/01/2024''" and days = "PyInt 3"
      and fs = sample_stores
      and err = "HotelManagementException ''Reservation already exists''"]
    errors_leave_stores [where e = "sample_env\<lparr>utcnow_date := Date 2024 1 21\<rparr>"
      and file_input = "Json sample_input" and fs = sample_stores
      and err = "HotelManagementException ''Error: today is not reservation date''"]
    errors_leave_stores [where e = sample_env and rk = sample_room_key
      and fs = "sample_stores\<lparr>store_check_in := Json [sample_stay]\<rparr>"
      and err = "HotelManagementException ''Error: today is not the departure day''"]
  by (simp add: sample_duplicate sample_arrival_wrong_day sample_checkout_wrong_day)

section \<open>Reservations stay unique\<close>

text \<open>
  Claim C5. For a valid reservation request and a reservation store that is absent or
  holds a list of records: if any stored record, checked in or not, has the localizer or
  the identity card of the new reservation, \<^verbatim>\<open>room_reservation\<close> fails with one of the two
  duplicate errors and leaves the stores unchanged (\<^verbatim>\<open>Reservation already exists\<close> when
  the first record that matches has the localizer, \<^verbatim>\<open>This ID card has another reservation\<close>
  when it only has the identity card). Otherwise, the store directory being there, it
  appends exactly the new record and returns its localizer. In every case a store with
  pairwise different localizers and pairwise different identity cards stays one.
\<close>

theorem room_reservation_unique:
  assumes "check_id_card idc = Inr ()"
    and "validate_room_type rtype = Inr rtype"
    and "check_data e arr cc idc name days phone rtype = Inr my"
    and "store_data_into_list_if_file_exists (store_reservation fs) = Inr (Shaped xs)"
  shows "((\<exists>item\<in>set xs. localizer my = localizer item \<or> id_card my = id_card item) \<longrightarrow>
            snd (room_reservation e cc name idc phone rtype arr days fs) = fs
            \<and> (fst (room_reservation e cc name idc phone rtype arr days fs)
                  = Inl (HotelManagementException ''Reservation already exists'')
               \<or> fst (room_reservation e cc name idc phone rtype arr days fs)
                  = Inl (HotelManagementException ''This ID card has another reservation'')))
       \<and> ((\<exists>item\<in>set xs. localizer my = localizer item)
            \<and> (\<forall>item\<in>set xs. localizer my \<noteq> localizer item \<longrightarrow> id_card my \<noteq> id_card item) \<longrightarrow>
            fst (room_reservation e cc name idc phone rtype arr days fs)
              = Inl (HotelManagementException ''Reservation already exists''))
       \<and> ((\<exists>item\<in>set xs. id_card my = id_card item)
            \<and> (\<forall>item\<in>set xs. localizer my \<noteq> localizer item) \<longrightarrow>
            fst (room_reservation e cc name idc phone rtype arr days fs)
              = Inl (HotelManagementException ''This ID card has another reservation''))
       \<and> ((\<forall>item\<in>set xs. localizer my \<noteq> localizer item \<and> id_card my \<noteq> id_card item)
            \<and> path_exists fs \<longrightarrow>
            room_reservation e cc name idc phone rtype arr days fs
              = (Inr (localizer my), fs\<lparr>store_reservation := Json (xs @ [my])\<rparr>))
       \<and> (distinct (map localizer xs) \<and> distinct (map id_card xs) \<longrightarrow>
            (\<exists>xs'. store_data_into_list_if_file_exists
                      (store_reservation (snd (room_reservation e cc name idc phone rtype arr days fs)))
                    = Inr (Shaped xs')
                  \<and> distinct (map localizer xs') \<and> distinct (map id_card xs')))"
proof -
  let ?r = "room_reservation e cc name idc phone rtype arr days fs"
  note run = room_reservation_run [OF assms]
  have dup: "snd ?r = fs \<and> (fst ?r = Inl (HotelManagementException ''Reservation already exists'')
               \<or> fst ?r = Inl (HotelManagementException ''This ID card has another reservation''))"
    if "\<exists>item\<in>set xs. localizer my = localizer item \<or> id_card my = id_card item"
  proof -
    from that have "reservation_not_in_list my xs \<noteq> Inr ()"
      unfolding not_in_list_Inr by blast
    then obtain er where er: "reservation_not_in_list my xs = Inl er"
      by (cases "reservation_not_in_list my xs") simp_all
    from not_in_list_Inl [OF er] er show ?thesis unfolding run by auto
  qed
  have loc: "fst ?r = Inl (HotelManagementException ''Reservation already exists'')"
    if "\<exists>item\<in>set xs. localizer my = localizer item"
      and "\<forall>item\<in>set xs. localizer my \<noteq> localizer item \<longrightarrow> id_card my \<noteq> id_card item"
    using not_in_list_localizer [OF that] unfolding run by simp
  have idc: "fst ?r = Inl (HotelManagementException ''This ID card has another reservation'')"
    if "\<exists>item\<in>set xs. id_card my = id_card item"
      and "\<forall>item\<in>set xs. localizer my \<noteq> localizer item"
    using not_in_list_id_card [OF that] unfolding run by simp
  have app: "?r = (Inr (localizer my), fs\<lparr>store_reservation := Json (xs @ [my])\<rparr>)"
    if "\<forall>item\<in>set xs. localizer my \<noteq> localizer item \<and> id_card my \<noteq> id_card item"
      and "path_exists fs"
  proof -
    from that(1) have "reservation_not_in_list my xs = Inr ()" unfolding not_in_list_Inr .
    with that(2) show ?thesis unfolding run by simp
  qed
  have inv: "\<exists>xs'. store_data_into_list_if_file_exists (store_reservation (snd ?r))
                    = Inr (Shaped xs')
                  \<and> distinct (map localizer xs') \<and> distinct (map id_card xs')"
    if d: "distinct (map localizer xs)" "distinct (map id_card xs)"
  proof (cases "fst ?r")
    case (Inl er)
    with aon_room_reservation [of e cc name idc phone rtype arr days] have "snd ?r = fs"
      by (simp add: all_or_nothing_def)
    with assms(4) d show ?thesis by simp
  next
    case (Inr l)
    then have ok: "reservation_not_in_list my xs = Inr ()" and px: "path_exists fs"
      unfolding run by (simp_all split: sum.splits if_splits)
    then have fs': "snd ?r = fs\<lparr>store_reservation := Json (xs @ [my])\<rparr>"
      unfolding run by simp
    from ok have "\<forall>item\<in>set xs. localizer my \<noteq> localizer item \<and> id_card my \<noteq> id_card item"
      unfolding not_in_list_Inr by simp
    with d have "distinct (map localizer (xs @ [my]))" "distinct (map id_card (xs @ [my]))"
      by auto
    with fs' show ?thesis
      by (simp add: store_data_into_list_if_file_exists_def)
  qed
  from dup loc idc app inv show ?thesis by blast
qed

theorem room_reservation_unique_witness:
  "room_reservation sample_env ''5555555555554444'' ''Jose Lopez Perez'' ''12345678Z''
     ''+341234567'' ''SINGLE'' ''20/01/2024'' (PyInt 3) sample_stores
   = (Inl (HotelManagementException ''Reservation already exists''), sample_stores)
   \<and> room_reservation sample_env ''5555555555554444'' ''Jose Lopez Perez'' ''12345678Z''
       ''+341234567'' ''SINGLE'' ''20/01/2024'' (PyInt 3)
       (sample_stores\<lparr>store_reservation :=
          Json [sample_reservation\<lparr>localizer := ''ffffffffffffffffffffffffffffffff''\<rparr>]\<rparr>)
     = (Inl (HotelManagementException ''This ID card has another reservation''),
        sample_stores\<lparr>store_reservation :=
          Json [sample_reservation\<lparr>localizer := ''ffffffffffffffffffffffffffffffff''\<rparr>]\<rparr>)
   \<and> room_reservation sample_env ''5555555555554444'' ''Jose Lopez Perez'' ''12345678Z''
       ''+341234567'' ''SINGLE'' ''20/01/2024'' (PyInt 3)
       (sample_stores\<lparr>store_reservation := NoFile\<rparr>)
     = (Inr ''0123456789abcdef0123456789abcdef'', sample_stores)"
proof -
  let ?other = "sample_reservation\<lparr>localizer := ''ffffffffffffffffffffffffffffffff''\<rparr>"
  have a: "store_data_into_list_if_file_exists (store_reservation sample_stores)
        = Inr (Shaped [sample_reservation])"
    by (simp add: store_data_into_list_if_file_exists_def sample_stores_def)
  have b: "store_data_into_list_if_file_exists
             (store_reservation (sample_stores\<lparr>store_reservation := Json [?other]\<rparr>))
        = Inr (Shaped [?other])"
    by (simp add: store_data_into_list_if_file_exists_def)
  have c: "store_data_into_list_if_file_exists
             (store_reservation (sample_stores\<lparr>store_reservation := NoFile\<rparr>))
        = Inr (Shaped [])"
    by (simp add: store_data_into_list_if_file_exists_def)
  have d: "sample_stores\<lparr>store_reservation := Json [sample_reservation]\<rparr> = sample_stores"
    by (simp add: sample_stores_def)
  note t1 = room_reservation_unique [OF sample_id_ok sample_room_ok sample_check_data a]
  note t2 = room_reservation_unique [OF sample_id_ok sample_room_ok sample_check_data b]
  note t3 = room_reservation_unique [OF sample_id_ok sample_room_ok sample_check_data c]
  have p1: "\<exists>item\<in>set [sample_reservation].
              localizer sample_reservation = localizer item
              \<or> id_card sample_reservation = id_card item"
    by simp
  have q1: "(\<exists>item\<in>set [sample_reservation]. localizer sample_reservation = localizer item)
            \<and> (\<forall>item\<in>set [sample_reservation].
                  localizer sample_reservation \<noteq> localizer item
                  \<longrightarrow> id_card sample_reservation \<noteq> id_card item)"
    by simp
  have p2: "\<exists>item\<in>set [?other].
              localizer sample_reservation = localizer item
              \<or> id_card sample_reservation = id_card item"
    by simp
  have q2: "(\<exists>item\<in>set [?other]. id_card sample_reservation = id_card item)
            \<and> (\<forall>item\<in>set [?other]. localizer sample_reservation \<noteq> localizer item)"
    by (simp add: sample_reservation_def)
  have p3: "(\<forall>item\<in>set []. localizer sample_reservation \<noteq> localizer item
               \<and> id_card sample_reservation \<noteq> id_card (item :: reservation))
            \<and> path_exists (sample_stores\<lparr>store_reservation := NoFile\<rparr>)"
    by (simp add: sample_stores_def)
  from t1 [THEN conjunct1, THEN mp, OF p1] t1 [THEN conjunct2, THEN conjunct1, THEN mp, OF q1]
  have g1: "room_reservation sample_env ''5555555555554444'' ''Jose Lopez Perez'' ''12345678Z''
     ''+341234567'' ''SINGLE'' ''20/01/2024'' (PyInt 3) sample_stores
   = (Inl (HotelManagementException ''Reservation already exists''), sample_stores)"
    by (simp add: prod_eq_iff)
  from t2 [THEN conjunct1, THEN mp, OF p2]
    t2 [THEN conjunct2, THEN conjunct2, THEN conjunct1, THEN mp, OF q2]
  have g2: "room_reservation sample_env ''5555555555554444'' ''Jose Lopez Perez'' ''12345678Z''
       ''+341234567'' ''SINGLE'' ''20/01/2024'' (PyInt 3)
       (sample_stores\<lparr>store_reservation := Json [?other]\<rparr>)
     = (Inl (HotelManagementException ''This ID card has another reservation''),
        sample_stores\<lparr>store_reservation := Json [?other]\<rparr>)"
    by (simp add: prod_eq_iff)
  from t3 [THEN conjunct2, THEN conjunct2, THEN conjunct2, THEN conjunct1, THEN mp, OF p3]
  have g3: "room_reservation sample_env ''5555555555554444'' ''Jose Lopez Perez'' ''12345678Z''
       ''+341234567'' ''SINGLE'' ''20/01/2024'' (PyInt 3)
       (sample_stores\<lparr>store_reservation := NoFile\<rparr>)
     = (Inr ''0123456789abcdef0123456789abcdef'', sample_stores)"
    by (simp add: sample_stores_def sample_reservation_def)
  from g1 g2 g3 show ?thesis by (simp only: simp_thms)
qed

section \<open>The last match wins\<close>

lemma restore_reservations:
  "store_reservation fs = v \<Longrightarrow> fs\<lparr>store_reservation := v\<rparr> = fs"
  by (cases fs) simp

lemma restore_check_in:
  "store_check_in fs = v \<Longrightarrow> fs\<lparr>store_check_in := v\<rparr> = fs"
  by (cases fs) simp

lemma save_checkin_frame:
  "save_checkin st (fs\<lparr>store_reservation := v\<rparr>)
   = apsnd (store_reservation_update (\<lambda>_. v)) (save_checkin st fs)"
  by (simp add: save_checkin_def save_checkin_unshaped_def action_simps write_into_json_def
      split: sum.splits loaded.splits)

lemma save_checkin_keeps:
  "store_reservation (snd (save_checkin st fs)) = store_reservation fs"
  by (simp add: save_checkin_def save_checkin_unshaped_def action_simps write_into_json_def
      split: sum.splits loaded.splits)

lemma guest_arrival_invalid:
  "get_and_validate_json m = Inl er \<Longrightarrow> guest_arrival e (Json m) fs = (Inl er, fs)"
  by (simp add: guest_arrival_def action_simps store_json_into_list_def)

lemma get_and_validate_json_localizer:
  "get_and_validate_json m = Inr (idc, loc) \<Longrightarrow> m ''Localizer'' = Some loc \<and> m ''IdCard'' = Some idc"
  by (auto simp: get_and_validate_json_def bind_result_def split: option.splits sum.splits)

lemma guest_arrival_last:
  assumes st: "store_reservation fs = Json xs"
    and lo: "m ''Localizer'' = Some loc"
    and ne: "filter (\<lambda>item. loc = localizer item) xs \<noteq> []"
  shows "guest_arrival e (Json m) fs =
     apsnd (store_reservation_update (\<lambda>_. Json xs))
       (guest_arrival e (Json m)
          (fs\<lparr>store_reservation := Json [last (filter (\<lambda>item. loc = localizer item) xs)]\<rparr>))"
proof -
  let ?r = "last (filter (\<lambda>item. loc = localizer item) xs)"
  let ?gs = "fs\<lparr>store_reservation := Json [?r]\<rparr>"
  have undo: "?gs\<lparr>store_reservation := Json xs\<rparr> = fs"
    using st by (cases fs) simp
  show ?thesis
  proof (cases "get_and_validate_json m")
    case (Inl er)
    then show ?thesis by (simp add: guest_arrival_invalid undo)
  next
    case (Inr p)
    obtain idc loc' where p: "p = (idc, loc')" by (cases p)
    with Inr have v: "get_and_validate_json m = Inr (idc, loc')" by simp
    from get_and_validate_json_localizer [OF v] lo have "loc' = loc" by simp
    with v have v: "get_and_validate_json m = Inr (idc, loc)" by simp
    from ne have "?r \<in> set (filter (\<lambda>item. loc = localizer item) xs)" by (rule last_in_set)
    then have lr: "loc = localizer ?r" by simp
    have s1: "store_reservation ?gs = Json [?r]" by simp
    have f: "find_reservation loc xs None = Some ?r"
      using ne by (simp add: find_reservation_filter)
    have f1: "find_reservation loc [?r] None = Some ?r"
      using lr by simp
    have c: "create_new_reservation e idc loc [?r] = create_new_reservation e idc loc xs"
      unfolding create_new_reservation_run [OF f] create_new_reservation_run [OF f1] ..
    have k: "fs' = fs'\<lparr>store_reservation := Json xs\<rparr>" if "save_checkin s fs = (r, fs')" for s r fs'
    proof -
      from that have "store_reservation fs' = store_reservation (snd (save_checkin s fs))" by simp
      with st have "store_reservation fs' = Json xs" by (simp add: save_checkin_keeps)
      then show ?thesis by (simp add: restore_reservations)
    qed
    show ?thesis
      unfolding guest_arrival_run [OF v st] guest_arrival_run [OF v s1] c save_checkin_frame
      by (auto split: sum.splits prod.splits simp: undo intro: k)
  qed
qed

lemma validate_roomkey_cases:
  "validate_roomkey rk = Inr rk
   \<or> validate_roomkey rk = Inl (HotelManagementException ''Invalid room key format'')"
  by (simp add: validate_roomkey_def)

lemma checkout_invalid:
  "validate_roomkey rk = Inl er \<Longrightarrow> checkout e rk fs = (Inl er, fs)"
  by (simp add: checkout_def action_simps)

lemma checkout_last:
  assumes st: "store_check_in fs = Json ys"
    and ne: "filter (\<lambda>item. rk = room_key item) ys \<noteq> []"
  shows "checkout e rk fs =
     apsnd (store_check_in_update (\<lambda>_. Json ys))
       (checkout e rk
          (fs\<lparr>store_check_in := Json [last (filter (\<lambda>item. rk = room_key item) ys)]\<rparr>))"
proof -
  let ?r = "last (filter (\<lambda>item. rk = room_key item) ys)"
  let ?gs = "fs\<lparr>store_check_in := Json [?r]\<rparr>"
  have undo: "?gs\<lparr>store_check_in := Json ys\<rparr> = fs"
    using st by (cases fs) simp
  from validate_roomkey_cases [of rk] show ?thesis
  proof
    assume v: "validate_roomkey rk = Inr rk"
    from ne have "?r \<in> set (filter (\<lambda>item. rk = room_key item) ys)" by (rule last_in_set)
    then have lr: "rk = room_key ?r" by simp
    have s1: "store_check_in ?gs = Json [?r]" by simp
    have f: "find_departure rk ys None = Some (departure ?r)"
      using ne by (simp add: find_departure_filter)
    have f1: "find_departure rk [?r] None = Some (departure ?r)"
      using lr by simp
    have b2: "fs\<lparr>store_check_out := z, store_check_in := Json ys\<rparr> = fs\<lparr>store_check_out := z\<rparr>" for z
      using st by (cases fs) simp
    show ?thesis
      unfolding checkout_run [OF v st f] checkout_run [OF v s1 f1]
      by (auto split: sum.splits loaded.splits
          simp: undo b2 write_checkout_unshaped_def action_simps write_into_json_def)
  next
    assume "validate_roomkey rk = Inl (HotelManagementException ''Invalid room key format'')"
    then show ?thesis by (simp add: checkout_invalid undo)
  qed
qed

lemma sample_roomkey_ok: "validate_roomkey sample_room_key = Inr sample_room_key"
  by (simp add: validate_roomkey_def fullmatch_rep_Cls sample_room_key_def is_hex_def in_range_def)

lemma sample_strptime: "strptime_date ''20/01/2024'' = Some (Date 2024 1 20)"
  by code_simp

lemma sample_find: "find_reservation ''0123456789abcdef0123456789abcdef'' [sample_reservation] None
           = Some sample_reservation"
  by (simp add: sample_reservation_def)

lemma sample_stay_made:
  "HotelStay sample_env ''12345678Z'' 3 ''0123456789abcdef0123456789abcdef'' (JStr ''SINGLE'')
   = sample_stay"
  by (simp add: HotelStay_def sample_env_def sample_stay_def)

lemma sample_arrival_ok:
  "guest_arrival sample_env (Json sample_input) sample_stores
   = (Inr sample_room_key, sample_stores\<lparr>store_check_in := Json [sample_stay]\<rparr>)"
proof -
  have s: "store_reservation sample_stores = Json [sample_reservation]"
    by (simp add: sample_stores_def)
  have c: "store_data_into_list_if_file_exists (store_check_in sample_stores) = Inr (Shaped [])"
    by (simp add: sample_stores_def store_data_into_list_if_file_exists_def)
  have r: "create_new_reservation sample_env ''12345678Z'' ''0123456789abcdef0123456789abcdef''
             [sample_reservation] = Inr (''20/01/2024'', PyInt 3, ''SINGLE'')"
    unfolding create_new_reservation_run [OF sample_find]
    by (simp add: sample_reservation_def HotelReservation_def sample_env_def sample_digest_def)
  have d: "check_equals_date sample_env ''20/01/2024'' = Inr ()"
    by (simp add: check_equals_date_def sample_strptime sample_env_def)
  have p: "path_exists sample_stores" by (simp add: sample_stores_def)
  show ?thesis
    unfolding guest_arrival_run [OF sample_input_ok s] r
    by (simp add: d int_of_days_def sample_stay_made save_checkin_run [OF c] p)
       (simp add: sample_stay_def)
qed

text \<open>
  Claim C7. The two lookup loops keep the last matching record: \<^verbatim>\<open>guest_arrival\<close> works
  with the last stored reservation that has the given localizer, \<^verbatim>\<open>guest_checkout\<close> with
  the departure of the last stored stay that has the given room key. When several
  records match, the operation returns, and writes into the other stores, what it does
  on a store that holds that last record alone. When no record matches, it fails with
  \<^verbatim>\<open>Error: localizer not found\<close>, respectively \<^verbatim>\<open>Error: room key not found\<close>.
\<close>

theorem last_match_wins:
  "find_reservation loc xs None =
     (if filter (\<lambda>item. loc = localizer item) xs = [] then None
      else Some (last (filter (\<lambda>item. loc = localizer item) xs)))
   \<and> find_departure rk ys None =
     (if filter (\<lambda>item. rk = room_key item) ys = [] then None
      else Some (departure (last (filter (\<lambda>item. rk = room_key item) ys))))
   \<and> (store_reservation fs = Json xs \<and> input_list ''Localizer'' = Some loc
        \<and> filter (\<lambda>item. loc = localizer item) xs \<noteq> [] \<longrightarrow>
      guest_arrival e (Json input_list) fs =
        apsnd (store_reservation_update (\<lambda>_. Json xs))
          (guest_arrival e (Json input_list)
             (fs\<lparr>store_reservation := Json [last (filter (\<lambda>item. loc = localizer item) xs)]\<rparr>)))
   \<and> (store_check_in fs = Json ys \<and> filter (\<lambda>item. rk = room_key item) ys \<noteq> [] \<longrightarrow>
      guest_checkout e rk fs =
        apsnd (store_check_in_update (\<lambda>_. Json ys))
          (guest_checkout e rk
             (fs\<lparr>store_check_in := Json [last (filter (\<lambda>item. rk = room_key item) ys)]\<rparr>)))
   \<and> (get_and_validate_json input_list = Inr (idc, loc) \<and> store_reservation fs = Json xs
        \<and> filter (\<lambda>item. loc = localizer item) xs = [] \<longrightarrow>
      guest_arrival e (Json input_list) fs
        = (Inl (HotelManagementException ''Error: localizer not found''), fs))
   \<and> (validate_roomkey rk = Inr rk \<and> store_check_in fs = Json ys
        \<and> filter (\<lambda>item. rk = room_key item) ys = [] \<longrightarrow>
      guest_checkout e rk fs
        = (Inl (HotelManagementException ''Error: room key not found''), fs))"
proof -
  have a: "guest_arrival e (Json input_list) fs
        = (Inl (HotelManagementException ''Error: localizer not found''), fs)"
    if "get_and_validate_json input_list = Inr (idc, loc)" and "store_reservation fs = Json xs"
      and "filter (\<lambda>item. loc = localizer item) xs = []"
  proof -
    from that(3) have "find_reservation loc xs None = None"
      by (simp add: find_reservation_filter)
    then show ?thesis
      unfolding guest_arrival_run [OF that(1,2)] by (simp add: create_new_reservation_missing)
  qed
  have b: "guest_checkout e rk fs
        = (Inl (HotelManagementException ''Error: room key not found''), fs)"
    if "validate_roomkey rk = Inr rk" and "store_check_in fs = Json ys"
      and "filter (\<lambda>item. rk = room_key item) ys = []"
  proof -
    from that(3) have "find_departure rk ys None = None"
      by (simp add: find_departure_filter)
    from checkout_missing [OF that(1,2) this] show ?thesis by (simp add: guest_checkout_def)
  qed
  show ?thesis
    using a b guest_arrival_last [of fs xs input_list loc e] checkout_last [of fs ys rk e]
    by (simp add: find_reservation_filter find_departure_filter guest_checkout_def)
qed

lemma sample_checkout_ok:
  "guest_checkout sample_env_departure sample_room_key
     (sample_stores\<lparr>store_check_in := Json [sample_stay]\<rparr>)
   = (Inr True,
      sample_stores\<lparr>store_check_in := Json [sample_stay],
        store_check_out := Json [\<lparr>checkout_room_key = sample_room_key,
                                   checkout_time = 1706040000000000\<rparr>]\<rparr>)"
proof -
  have s: "store_check_in (sample_stores\<lparr>store_check_in := Json [sample_stay]\<rparr>) = Json [sample_stay]"
    by simp
  have f: "find_departure sample_room_key [sample_stay] None = Some 1706011200000000"
    by (simp add: sample_stay_def)
  show ?thesis
    unfolding guest_checkout_def checkout_run [OF sample_roomkey_ok s f]
    by (simp add: sample_env_departure_def sample_env_def sample_stores_def
        store_data_into_list_if_file_exists_def)
qed

theorem last_match_wins_witness:
  "guest_arrival sample_env (Json sample_input)
     (sample_stores\<lparr>store_reservation :=
        Json [sample_reservation\<lparr>arrival := ''19/01/2024''\<rparr>, sample_reservation]\<rparr>)
   = (Inr sample_room_key,
      sample_stores\<lparr>store_reservation :=
          Json [sample_reservation\<lparr>arrival := ''19/01/2024''\<rparr>, sample_reservation],
        store_check_in := Json [sample_stay]\<rparr>)
   \<and> guest_checkout sample_env_departure sample_room_key
       (sample_stores\<lparr>store_check_in :=
          Json [sample_stay\<lparr>departure := 1705752000000000\<rparr>, sample_stay]\<rparr>)
     = (Inr True,
        sample_stores\<lparr>store_check_in :=
            Json [sample_stay\<lparr>departure := 1705752000000000\<rparr>, sample_stay],
          store_check_out := Json [\<lparr>checkout_room_key = sample_room_key,
                                     checkout_time = 1706040000000000\<rparr>]\<rparr>)
   \<and> guest_arrival sample_env (Json sample_input) (sample_stores\<lparr>store_reservation := Json []\<rparr>)
     = (Inl (HotelManagementException ''Error: localizer not found''),
        sample_stores\<lparr>store_reservation := Json []\<rparr>)
   \<and> guest_checkout sample_env sample_room_key (sample_stores\<lparr>store_check_in := Json []\<rparr>)
     = (Inl (HotelManagementException ''Error: room key not found''),
        sample_stores\<lparr>store_check_in := Json []\<rparr>)"
proof -
  let ?xs = "[sample_reservation\<lparr>arrival := ''19/01/2024''\<rparr>, sample_reservation]"
  let ?ys = "[sample_stay\<lparr>departure := 1705752000000000\<rparr>, sample_stay]"
  let ?loc = "''0123456789abcdef0123456789abcdef''"
  have l: "sample_input ''Localizer'' = Some ?loc" by (simp add: sample_input_def)
  have fx: "filter (\<lambda>item. ?loc = localizer item) ?xs = ?xs"
    by (simp add: sample_reservation_def)
  have fy: "filter (\<lambda>item. sample_room_key = room_key item) ?ys = ?ys"
    by (simp add: sample_stay_def)
  have u: "sample_stores\<lparr>store_reservation := Json [sample_reservation]\<rparr> = sample_stores"
    by (simp add: sample_stores_def)
  have g1: "guest_arrival sample_env (Json sample_input) (sample_stores\<lparr>store_reservation := Json ?xs\<rparr>)
     = (Inr sample_room_key,
        sample_stores\<lparr>store_reservation := Json ?xs, store_check_in := Json [sample_stay]\<rparr>)"
    using last_match_wins [where fs = "sample_stores\<lparr>store_reservation := Json ?xs\<rparr>"
        and xs = ?xs and input_list = sample_input and loc = ?loc and e = sample_env,
        THEN conjunct2, THEN conjunct2, THEN conjunct1, unfolded fx]
    by (simp add: l u sample_arrival_ok)
  have g2: "guest_checkout sample_env_departure sample_room_key
       (sample_stores\<lparr>store_check_in := Json ?ys\<rparr>)
     = (Inr True,
        sample_stores\<lparr>store_check_in := Json ?ys,
          store_check_out := Json [\<lparr>checkout_room_key = sample_room_key,
                                     checkout_time = 1706040000000000\<rparr>]\<rparr>)"
    using last_match_wins [where fs = "sample_stores\<lparr>store_check_in := Json ?ys\<rparr>"
        and ys = ?ys and rk = sample_room_key and e = sample_env_departure,
        THEN conjunct2, THEN conjunct2, THEN conjunct2, THEN conjunct1, unfolded fy]
    by (simp add: sample_checkout_ok)
  have g3: "guest_arrival sample_env (Json sample_input) (sample_stores\<lparr>store_reservation := Json []\<rparr>)
     = (Inl (HotelManagementException ''Error: localizer not found''),
        sample_stores\<lparr>store_reservation := Json []\<rparr>)"
    using last_match_wins [where fs = "sample_stores\<lparr>store_reservation := Json []\<rparr>"
        and xs = "[]" and input_list = sample_input and loc = ?loc and idc = "''12345678Z''"
        and e = sample_env,
        THEN conjunct2, THEN conjunct2, THEN conjunct2, THEN conjunct2, THEN conjunct1]
    by (simp add: sample_input_ok)
  have g4: "guest_checkout sample_env sample_room_key (sample_stores\<lparr>store_check_in := Json []\<rparr>)
     = (Inl (HotelManagementException ''Error: room key not found''),
        sample_stores\<lparr>store_check_in := Json []\<rparr>)"
    using last_match_wins [where fs = "sample_stores\<lparr>store_check_in := Json []\<rparr>"
        and ys = "[]" and rk = sample_room_key and e = sample_env,
        THEN conjunct2, THEN conjunct2, THEN conjunct2, THEN conjunct2, THEN conjunct2]
    by (simp add: sample_roomkey_ok)
  from g1 g2 g3 g4 show ?thesis by (simp only: simp_thms)
qed

section \<open>The date gates\<close>

lemma checkin_not_in_list_error:
  "checkin_not_in_list st ys = Inl er \<Longrightarrow> er = HotelManagementException ''ckeckin  ya realizado''"
  by (induction ys) (simp_all split: if_splits)

lemma not_checked_out_error:
  "not_checked_out rk zs = Inl er \<Longrightarrow> er = HotelManagementException ''Guest is already out''"
  by (induction zs) (simp_all split: if_splits)

lemma py_getitem_error: "py_getitem v key = Inl er \<Longrightarrow> er = KeyError \<or> er = TypeError"
  by (cases v) (simp_all split: option.splits)

lemma py_iter_error: "py_iter v = Inl er \<Longrightarrow> er = TypeError"
  by (cases v) simp_all

lemma py_append_error: "py_append v x = Inl er \<Longrightarrow> er = AttributeError"
  by (cases v) simp_all

lemma checkin_not_in_items_error:
  "checkin_not_in_items st items = Inl er \<Longrightarrow>
   er = HotelManagementException ''ckeckin  ya realizado'' \<or> er = KeyError \<or> er = TypeError"
proof (induction items)
  case Nil
  then show ?case by simp
next
  case (Cons item items)
  show ?case
  proof (cases "py_getitem item ''_HotelStay__room_key''")
    case (Inl a)
    with Cons.prems py_getitem_error [OF Inl] show ?thesis by simp
  next
    case (Inr k)
    with Cons.prems Cons.IH show ?thesis by (simp split: if_splits)
  qed
qed

lemma not_checked_out_items_error:
  "not_checked_out_items rk items = Inl er \<Longrightarrow>
   er = HotelManagementException ''Guest is already out'' \<or> er = KeyError \<or> er = TypeError"
proof (induction items)
  case Nil
  then show ?case by simp
next
  case (Cons item items)
  show ?case
  proof (cases "py_getitem item ''room_key''")
    case (Inl a)
    with Cons.prems py_getitem_error [OF Inl] show ?thesis by simp
  next
    case (Inr k)
    with Cons.prems Cons.IH show ?thesis by (simp split: if_splits)
  qed
qed

lemma save_checkin_unshaped_error:
  assumes "save_checkin_unshaped st v fs = (Inl er, fs')"
  shows "er = HotelManagementException ''ckeckin  ya realizado''
         \<or> er = HotelManagementException ''Wrong file  or file path''
         \<or> er = KeyError \<or> er = TypeError \<or> er = AttributeError"
proof (cases "py_iter v")
  case (Inl a)
  with assms py_iter_error [OF Inl] show ?thesis
    by (simp add: save_checkin_unshaped_def action_simps)
next
  case items: (Inr items)
  show ?thesis
  proof (cases "checkin_not_in_items st items")
    case (Inl a)
    with assms items checkin_not_in_items_error [OF Inl] show ?thesis
      by (auto simp: save_checkin_unshaped_def action_simps)
  next
    case ok: (Inr u)
    show ?thesis
    proof (cases "py_append v (stay_json st)")
      case (Inl a)
      with assms items ok py_append_error [OF Inl] show ?thesis
        by (simp add: save_checkin_unshaped_def action_simps)
    next
      case (Inr w)
      with assms items ok show ?thesis
        by (simp add: save_checkin_unshaped_def action_simps write_into_json_def
            split: if_splits)
    qed
  qed
qed

lemma write_checkout_unshaped_error:
  assumes "write_checkout_unshaped rk c v fs = (Inl er, fs')"
  shows "er = HotelManagementException ''Guest is already out''
         \<or> er = HotelManagementException ''Wrong file  or file path''
         \<or> er = KeyError \<or> er = TypeError \<or> er = AttributeError"
proof (cases "py_iter v")
  case (Inl a)
  with assms py_iter_error [OF Inl] show ?thesis
    by (simp add: write_checkout_unshaped_def action_simps)
next
  case items: (Inr items)
  show ?thesis
  proof (cases "not_checked_out_items rk items")
    case (Inl a)
    with assms items not_checked_out_items_error [OF Inl] show ?thesis
      by (auto simp: write_checkout_unshaped_def action_simps)
  next
    case ok: (Inr u)
    show ?thesis
    proof (cases "py_append v (checkout_json c)")
      case (Inl a)
      with assms items ok py_append_error [OF Inl] show ?thesis
        by (simp add: write_checkout_unshaped_def action_simps)
    next
      case (Inr w)
      with assms items ok show ?thesis
        by (simp add: write_checkout_unshaped_def action_simps write_into_json_def
            split: if_splits)
    qed
  qed
qed

lemma save_checkin_error:
  assumes "save_checkin st fs = (Inl er, fs')"
  shows "er = HotelManagementException ''JSON Decode Error - Wrong JSON Format''
         \<or> er = HotelManagementException ''ckeckin  ya realizado''
         \<or> er = HotelManagementException ''Wrong file  or file path''
         \<or> er = KeyError \<or> er = TypeError \<or> er = AttributeError"
proof (cases "store_data_into_list_if_file_exists (store_check_in fs)")
  case (Inl a)
  then have "a = HotelManagementException ''JSON Decode Error - Wrong JSON Format''"
    by (simp add: store_data_into_list_if_file_exists_def split: json_file.splits)
  with Inl assms show ?thesis
    by (simp add: save_checkin_def action_simps)
next
  case (Inr l)
  show ?thesis
  proof (cases l)
    case (Shaped ys)
    with Inr have ld: "store_data_into_list_if_file_exists (store_check_in fs) = Inr (Shaped ys)"
      by simp
    show ?thesis
    proof (cases "checkin_not_in_list st ys")
      case (Inl a)
      with assms have "a = er" unfolding save_checkin_run [OF ld] by simp
      with checkin_not_in_list_error [OF Inl] show ?thesis by simp
    next
      case (Inr u)
      with assms show ?thesis unfolding save_checkin_run [OF ld]
        by (simp split: if_splits)
    qed
  next
    case (Unshaped v)
    with Inr assms have "save_checkin_unshaped st v fs = (Inl er, fs')"
      by (simp add: save_checkin_def action_simps)
    from save_checkin_unshaped_error [OF this] show ?thesis by blast
  qed
qed

lemma load_if_exists_error:
  "store_data_into_list_if_file_exists f = Inl er \<Longrightarrow>
   er = HotelManagementException ''JSON Decode Error - Wrong JSON Format''"
  by (simp add: store_data_into_list_if_file_exists_def split: json_file.splits)

lemma arrival_date_gate:
  assumes v: "get_and_validate_json m = Inr (idc, loc)"
    and st: "store_reservation fs = Json xs"
    and f: "find_reservation loc xs None = Some item"
    and own: "id_card item = idc"
    and ok: "localizer (HotelReservation e (reservation_date item) (id_card item)
               (credit_card_number item) (name_surname item) (phone_number item)
               (room_type item) (arrival item) (num_days item)) = loc"
    and d: "strptime_date (arrival item) = Some d"
  shows "(d \<noteq> utcnow_date e \<longrightarrow>
            guest_arrival e (Json m) fs
              = (Inl (HotelManagementException ''Error: today is not reservation date''), fs))
         \<and> (d = utcnow_date e \<longrightarrow>
            fst (guest_arrival e (Json m) fs)
              \<noteq> Inl (HotelManagementException ''Error: today is not reservation date''))"
proof -
  have c: "create_new_reservation e idc loc xs = Inr (arrival item, num_days item, room_type item)"
    unfolding create_new_reservation_run [OF f] using own ok by simp
  have run: "guest_arrival e (Json m) fs =
     (case check_equals_date e (arrival item) of
        Inl er \<Rightarrow> (Inl er, fs)
      | Inr _ \<Rightarrow>
          (case int_of_days (num_days item) of
             Inl er \<Rightarrow> (Inl er, fs)
           | Inr n \<Rightarrow>
               (case save_checkin (HotelStay e idc n loc (JStr (room_type item))) fs of
                  (Inl er, fs') \<Rightarrow> (Inl er, fs')
                | (Inr _, fs') \<Rightarrow> (Inr (room_key (HotelStay e idc n loc (JStr (room_type item)))), fs'))))"
    unfolding guest_arrival_run [OF v st] c by simp
  show ?thesis
  proof (intro conjI impI)
    assume "d \<noteq> utcnow_date e"
    with d show "guest_arrival e (Json m) fs
              = (Inl (HotelManagementException ''Error: today is not reservation date''), fs)"
      unfolding run by (simp add: check_equals_date_def)
  next
    assume eq: "d = utcnow_date e"
    with d have ce: "check_equals_date e (arrival item) = Inr ()"
      by (simp add: check_equals_date_def)
    show "fst (guest_arrival e (Json m) fs)
              \<noteq> Inl (HotelManagementException ''Error: today is not reservation date'')"
    proof (cases "int_of_days (num_days item)")
      case (Inl er)
      then have "er = ValueError" by (simp add: int_of_days_def split: option.splits)
      with Inl show ?thesis unfolding run ce by simp
    next
      case (Inr n)
      obtain r fs' where s: "save_checkin (HotelStay e idc n loc (JStr (room_type item))) fs = (r, fs')"
        by (cases "save_checkin (HotelStay e idc n loc (JStr (room_type item))) fs")
      show ?thesis
      proof (cases r)
        case (Inl er)
        with s save_checkin_error [of _ fs er fs'] Inr show ?thesis
          unfolding run ce by auto
      next
        case (Inr u)
        with s \<open>int_of_days (num_days item) = Inr n\<close> show ?thesis unfolding run ce by simp
      qed
    qed
  qed
qed

lemma checkout_date_gate:
  assumes v: "validate_roomkey rk = Inr rk"
    and st: "store_check_in fs = Json ys"
    and f: "find_departure rk ys None = Some ts"
  shows "(fromtimestamp_date e ts \<noteq> utcnow_date e \<longrightarrow>
            guest_checkout e rk fs
              = (Inl (HotelManagementException ''Error: today is not the departure day''), fs))
         \<and> (fromtimestamp_date e ts = utcnow_date e \<longrightarrow>
            fst (guest_checkout e rk fs)
              \<noteq> Inl (HotelManagementException ''Error: today is not the departure day''))"
proof (intro conjI impI)
  assume "fromtimestamp_date e ts \<noteq> utcnow_date e"
  then show "guest_checkout e rk fs
              = (Inl (HotelManagementException ''Error: today is not the departure day''), fs)"
    unfolding guest_checkout_def checkout_run [OF v st f] by simp
next
  assume eq: "fromtimestamp_date e ts = utcnow_date e"
  show "fst (guest_checkout e rk fs)
              \<noteq> Inl (HotelManagementException ''Error: today is not the departure day'')"
  proof (cases "store_data_into_list_if_file_exists (store_check_out fs)")
    case (Inl er)
    with load_if_exists_error [OF Inl] eq show ?thesis
      unfolding guest_checkout_def checkout_run [OF v st f] by simp
  next
    case (Inr l)
    show ?thesis
    proof (cases l)
      case (Shaped zs)
      show ?thesis
      proof (cases "not_checked_out rk zs")
        case (Inl er)
        with not_checked_out_error [OF Inl] Inr Shaped eq show ?thesis
          unfolding guest_checkout_def checkout_run [OF v st f] by simp
      next
        case ok: (Inr u)
        with Inr Shaped eq show ?thesis
          unfolding guest_checkout_def checkout_run [OF v st f] by simp
      qed
    next
      case (Unshaped w)
      let ?c = "\<lparr>checkout_room_key = rk, checkout_time = utcnow_timestamp e\<rparr>"
      obtain r fs' where w: "write_checkout_unshaped rk ?c w fs = (r, fs')"
        by (cases "write_checkout_unshaped rk ?c w fs")
      show ?thesis
      proof (cases r)
        case (Inl er)
        with w write_checkout_unshaped_error [of rk ?c w fs er fs'] Inr Unshaped eq show ?thesis
          unfolding guest_checkout_def checkout_run [OF v st f] by auto
      next
        case ok: (Inr u)
        with w Inr Unshaped eq show ?thesis
          unfolding guest_checkout_def checkout_run [OF v st f] by simp
      qed
    qed
  qed
qed

text \<open>
  Claim C4. Both gates compare calendar dates. When \<^verbatim>\<open>guest_arrival\<close> has found the
  reservation, the identity card is the stored one and the localizer has been derived
  again unchanged, it fails with \<^verbatim>\<open>Error: today is not reservation date\<close> whenever the
  stored arrival date, read with \<^verbatim>\<open>strptime\<close>, is another day than today, and never with
  that error when it is today. When \<^verbatim>\<open>guest_checkout\<close> has found the stay, it fails with
  \<^verbatim>\<open>Error: today is not the departure day\<close> whenever the date of the stored departure time
  stamp is another day than today, and never with that error when it is today, whatever
  the time of day. Today is the date of \<^verbatim>\<open>datetime.utcnow()\<close>; the date of a time stamp is
  the one \<^verbatim>\<open>datetime.fromtimestamp\<close> gives.
\<close>

theorem date_gates:
  "(get_and_validate_json input_list = Inr (idc, loc) \<and> store_reservation fs = Json xs
      \<and> find_reservation loc xs None = Some item \<and> id_card item = idc
      \<and> localizer (HotelReservation e (reservation_date item) (id_card item)
                     (credit_card_number item) (name_surname item) (phone_number item)
                     (room_type item) (arrival item) (num_days item)) = loc
      \<and> strptime_date (arrival item) = Some d \<longrightarrow>
      (d \<noteq> utcnow_date e \<longrightarrow>
         guest_arrival e (Json input_list) fs
           = (Inl (HotelManagementException ''Error: today is not reservation date''), fs))
      \<and> (d = utcnow_date e \<longrightarrow>
         fst (guest_arrival e (Json input_list) fs)
           \<noteq> Inl (HotelManagementException ''Error: today is not reservation date'')))
   \<and> (validate_roomkey rk = Inr rk \<and> store_check_in fs = Json ys
      \<and> find_departure rk ys None = Some ts \<longrightarrow>
      (fromtimestamp_date e ts \<noteq> utcnow_date e \<longrightarrow>
         guest_checkout e rk fs
           = (Inl (HotelManagementException ''Error: today is not the departure day''), fs))
      \<and> (fromtimestamp_date e ts = utcnow_date e \<longrightarrow>
         fst (guest_checkout e rk fs)
           \<noteq> Inl (HotelManagementException ''Error: today is not the departure day'')))"
  using arrival_date_gate [of input_list idc loc fs xs item e d]
    checkout_date_gate [of rk fs ys ts e]
  by blast

theorem date_gates_witness:
  "guest_arrival (sample_env\<lparr>utcnow_date := Date 2024 1 21\<rparr>) (Json sample_input) sample_stores
     = (Inl (HotelManagementException ''Error: today is not reservation date''), sample_stores)
   \<and> fst (guest_arrival sample_env (Json sample_input) sample_stores)
     \<noteq> Inl (HotelManagementException ''Error: today is not reservation date'')
   \<and> guest_checkout sample_env sample_room_key (sample_stores\<lparr>store_check_in := Json [sample_stay]\<rparr>)
     = (Inl (HotelManagementException ''Error: today is not the departure day''),
        sample_stores\<lparr>store_check_in := Json [sample_stay]\<rparr>)
   \<and> fst (guest_checkout sample_env_departure sample_room_key
          (sample_stores\<lparr>store_check_in := Json [sample_stay]\<rparr>))
     \<noteq> Inl (HotelManagementException ''Error: today is not the departure day'')
   \<and> utcnow_timestamp sample_env_departure \<noteq> departure sample_stay"
proof -
  let ?loc = "''0123456789abcdef0123456789abcdef''"
  let ?late = "sample_env\<lparr>utcnow_date := Date 2024 1 21\<rparr>"
  let ?gs = "sample_stores\<lparr>store_check_in := Json [sample_stay]\<rparr>"
  have s: "store_reservation sample_stores = Json [sample_reservation]"
    by (simp add: sample_stores_def)
  have o: "id_card sample_reservation = ''12345678Z''"
    by (simp add: sample_reservation_def)
  have a: "strptime_date (arrival sample_reservation) = Some (Date 2024 1 20)"
    by (simp add: sample_reservation_def sample_strptime)
  have i: "localizer (HotelReservation env (reservation_date sample_reservation)
             (id_card sample_reservation) (credit_card_number sample_reservation)
             (name_surname sample_reservation) (phone_number sample_reservation)
             (room_type sample_reservation) (arrival sample_reservation)
             (num_days sample_reservation)) = ?loc"
    if "derive_localizer env = sample_digest" for env
    using that by (simp add: HotelReservation_def sample_reservation_def sample_digest_def)
  have i1: "derive_localizer ?late = sample_digest" by (simp add: sample_env_def)
  have i2: "derive_localizer sample_env = sample_digest" by (simp add: sample_env_def)
  have h1: "get_and_validate_json sample_input = Inr (''12345678Z'', ?loc)
      \<and> store_reservation sample_stores = Json [sample_reservation]
      \<and> find_reservation ?loc [sample_reservation] None = Some sample_reservation
      \<and> id_card sample_reservation = ''12345678Z''
      \<and> localizer (HotelReservation env (reservation_date sample_reservation)
             (id_card sample_reservation) (credit_card_number sample_reservation)
             (name_surname sample_reservation) (phone_number sample_reservation)
             (room_type sample_reservation) (arrival sample_reservation)
             (num_days sample_reservation)) = ?loc
      \<and> strptime_date (arrival sample_reservation) = Some (Date 2024 1 20)"
    if "derive_localizer env = sample_digest" for env
    using sample_input_ok s sample_find o i [OF that] a by simp
  have k: "store_check_in ?gs = Json [sample_stay]" by simp
  have f: "find_departure sample_room_key [sample_stay] None = Some (departure sample_stay)"
    by (simp add: sample_stay_def)
  have h2: "validate_roomkey sample_room_key = Inr sample_room_key
      \<and> store_check_in ?gs = Json [sample_stay]
      \<and> find_departure sample_room_key [sample_stay] None = Some (departure sample_stay)"
    using sample_roomkey_ok k f by simp
  have g1: "guest_arrival ?late (Json sample_input) sample_stores
     = (Inl (HotelManagementException ''Error: today is not reservation date''), sample_stores)"
    using date_gates [where e = ?late and d = "Date 2024 1 20", THEN conjunct1, THEN mp,
        OF h1 [OF i1], THEN conjunct1]
    by (simp add: sample_env_def)
  have g2: "fst (guest_arrival sample_env (Json sample_input) sample_stores)
     \<noteq> Inl (HotelManagementException ''Error: today is not reservation date'')"
    using date_gates [where e = sample_env and d = "Date 2024 1 20", THEN conjunct1, THEN mp,
        OF h1 [OF i2], THEN conjunct2]
    by (simp add: sample_env_def)
  have g3: "guest_checkout sample_env sample_room_key ?gs
     = (Inl (HotelManagementException ''Error: today is not the departure day''), ?gs)"
    using date_gates [where e = sample_env, THEN conjunct2, THEN mp, OF h2, THEN conjunct1]
    by (simp add: sample_env_def sample_stay_def)
  have g4: "fst (guest_checkout sample_env_departure sample_room_key ?gs)
     \<noteq> Inl (HotelManagementException ''Error: today is not the departure day'')"
    using date_gates [where e = sample_env_departure, THEN conjunct2, THEN mp, OF h2,
        THEN conjunct2]
    by (simp add: sample_env_departure_def sample_env_def sample_stay_def)
  have g5: "utcnow_timestamp sample_env_departure \<noteq> departure sample_stay"
    by (simp add: sample_env_departure_def sample_env_def sample_stay_def)
  from g1 g2 g3 g4 g5 show ?thesis by (simp only: simp_thms)
qed

section \<open>Detecting an edited reservation\<close>





lemma days_json_inject [simp]: "(days_json d = days_json d') = (d = d')"
  by (cases d; cases d') simp_all

lemma days_json_num [simp]: "(days_json d = JNum n) = (d = PyInt n)"
  by (cases d) simp_all

lemma single_field_edit_localizer:
  "single_field_edit item edited \<Longrightarrow> localizer edited = localizer item"
  by (simp add: single_field_edit_def)







section \<open>Absent and malformed store files\<close>


lemma save_checkin_absent:
  "fst (save_checkin st (fs\<lparr>store_check_in := NoFile\<rparr>))
   = fst (save_checkin st (fs\<lparr>store_check_in := Json []\<rparr>))
   \<and> (\<forall>v. fst (save_checkin st (fs\<lparr>store_check_in := NoFile\<rparr>)) = Inr v \<longrightarrow>
          snd (save_checkin st (fs\<lparr>store_check_in := NoFile\<rparr>))
          = snd (save_checkin st (fs\<lparr>store_check_in := Json []\<rparr>)))"
  by (simp add: save_checkin_def action_simps write_into_json_def
      store_data_into_list_if_file_exists_def split: sum.splits)















lemma decoded_python [simp]:
  "decoded (Inl ValueError)" "decoded (Inl IndexError)" "decoded (Inl KeyError)"
  "decoded (Inl TypeError)" "decoded (Inl AttributeError)"
  by (simp_all add: decoded_def decode_error_def)









































































end
